theory Spec2Isabelle
  imports Main
begin

section \<open>Data model\<close>

text \<open>
  The development embeds \<^verbatim>\<open>examples/hf_serialization.py\<close>. Location strings are
  Python \<^verbatim>\<open>str\<close> values and artifact contents are Python \<^verbatim>\<open>bytes\<close>; both are
  lists of 8-bit characters here.
\<close>

type_synonym path = string
type_synonym bytes = string

text \<open>
  Python exceptions as values. \<^verbatim>\<open>except ValueError\<close> catches the class and its
  subclasses; \<^verbatim>\<open>json.JSONDecodeError\<close> and \<^verbatim>\<open>UnicodeDecodeError\<close> are subclasses
  of \<^verbatim>\<open>ValueError\<close>, \<^verbatim>\<open>FileNotFoundError\<close> and \<^verbatim>\<open>PermissionError\<close> are
  subclasses of \<^verbatim>\<open>OSError\<close>. \<^verbatim>\<open>CorruptArtifactError\<close> is the error of section 7 of
  the specification for a malformed tensor artifact.
\<close>

datatype exn =
    ValueError
  | JSONDecodeError
  | UnicodeDecodeError
  | OSError
  | FileNotFoundError
  | PermissionError
  | IndexError
  | TypeError
  | CorruptArtifactError

fun is_ValueError :: "exn \<Rightarrow> bool" where
  "is_ValueError ValueError = True"
| "is_ValueError JSONDecodeError = True"
| "is_ValueError UnicodeDecodeError = True"
| "is_ValueError _ = False"

text \<open>
  The state of the outside world that the script observes and changes.
  \<^item> \<open>is_local p\<close>: the location string \<open>p\<close> names a path of the local filesystem
    (otherwise it is a remote-storage URI);
  \<^item> \<open>store\<close>: the byte stream held at each location, if any;
  \<^item> \<open>fault\<close>: locations that the storage adapter cannot open for reading, with the
    error it signals there;
  \<^item> \<open>written\<close>: the locations opened for writing so far, oldest first (a history
    variable: it records that a write happened even when the bytes did not change).
\<close>

record world =
  is_local :: "path \<Rightarrow> bool"
  store :: "path \<rightharpoonup> bytes"
  fault :: "path \<rightharpoonup> exn"
  written :: "path list"

text \<open>\<^verbatim>\<open>os.path.exists(file)\<close>: a local filesystem entry of that name exists.\<close>

definition os_path_exists :: "world \<Rightarrow> path \<Rightarrow> bool" where
  "os_path_exists w file = (is_local w file \<and> store w file \<noteq> None)"

text \<open>
  Modelled from the spec: \<^verbatim>\<open>tensorizer.stream_io.open_stream\<close> is not part of the
  sources at hand. Section 4.1 of the specification: the adapter returns a byte stream
  for a location, opened for read or write; it signals its errors (NotFound,
  PermissionDenied, TransientIOError) to the caller; a location whose stream is
  immediately empty counts as not existing. \<open>open_stream_rb\<close> is
  \<^verbatim>\<open>open_stream(p, "rb")\<close> and yields the bytes the stream will deliver.
\<close>

definition open_stream_rb :: "world \<Rightarrow> path \<Rightarrow> exn + bytes" where
  "open_stream_rb w p =
     (case fault w p of
        Some e \<Rightarrow> Inl e
      | None \<Rightarrow> Inr (case store w p of None \<Rightarrow> [] | Some bs \<Rightarrow> bs))"

text \<open>
  Modelled from the spec: \<^verbatim>\<open>f.read(n)\<close> on a stream the adapter has just opened
  delivers at most the first \<open>n\<close> bytes, and the empty byte string when the stream is
  immediately empty.
\<close>

definition stream_read :: "nat \<Rightarrow> bytes \<Rightarrow> bytes" where
  "stream_read n s = take n s"

text \<open>
  Modelled from the spec: \<^verbatim>\<open>open_stream(p, "wb")\<close>, also not part of the sources at
  hand. Sections 4.1 and 4.2: a stream opened for writing creates or overwrites the
  byte stream at the target location. No error of the adapter is modelled on this side.
\<close>

definition open_stream_wb :: "world \<Rightarrow> path \<Rightarrow> world" where
  "open_stream_wb w p = w\<lparr>store := (store w)(p \<mapsto> []), written := written w @ [p]\<rparr>"

text \<open>
  Modelled from the spec: \<^verbatim>\<open>f.write(bs)\<close> on a stream opened for writing appends
  \<open>bs\<close> to the byte stream at the location.
\<close>

definition stream_write :: "world \<Rightarrow> path \<Rightarrow> bytes \<Rightarrow> world" where
  "stream_write w p bs =
     w\<lparr>store := (store w)(p \<mapsto> (case store w p of None \<Rightarrow> [] | Some old \<Rightarrow> old) @ bs)\<rparr>"

section \<open>The existence probe\<close>

text \<open>
  \<^verbatim>\<open>
  def check_file_exists(file):
      if os.path.exists(file):
          return True
      else:
          with stream_io.open_stream(file, "rb") as f:
              if f.read(1) == b'':
                  return False
              else:
                  return True
  \<close>
  There is no handler around \<^verbatim>\<open>open_stream\<close>: an error of the adapter leaves the
  function as an exception.
\<close>

definition check_file_exists :: "world \<Rightarrow> path \<Rightarrow> exn + bool" where
  "check_file_exists w file =
     (if os_path_exists w file then Inr True
      else (case open_stream_rb w file of
              Inl e \<Rightarrow> Inl e
            | Inr f \<Rightarrow> if stream_read 1 f = [] then Inr False else Inr True))"

section \<open>Saving\<close>

text \<open>
  What \<^verbatim>\<open>serialize_model\<close> asks of a Python object used as configuration:
  \<open>to_dict\<close> is \<open>Some d\<close> when \<^verbatim>\<open>hasattr(config, "to_dict")\<close>, \<open>d\<close> being the value of
  \<^verbatim>\<open>config.to_dict()\<close>; \<open>dict_value\<close> is \<open>Some d\<close> when
  \<^verbatim>\<open>isinstance(config, dict)\<close>. The type \<open>'j\<close> stands for JSON-serialisable
  Python values.
\<close>

record 'j pyobj =
  to_dict :: "'j option"
  dict_value :: "'j option"

text \<open>
  A \<^verbatim>\<open>torch.nn.Module\<close>: the object itself (for \<^verbatim>\<open>config = model\<close>) and its
  tensors, of a type \<open>'t\<close>.
\<close>

record ('j, 't) nn_module =
  as_object :: "'j pyobj"
  tensors :: "'t"

text \<open>
  The collaborators of \<^verbatim>\<open>serialize_model\<close> that are not defined in the script:
  \<open>json_dumps d\<close> is \<^verbatim>\<open>bytes(json.dumps(d), "utf-8")\<close>, and \<open>write_module t\<close> is the
  byte stream that \<^verbatim>\<open>TensorSerializer.write_module\<close> produces for the tensors \<open>t\<close>.
\<close>

record ('j, 't) writer_lib =
  json_dumps :: "'j \<Rightarrow> bytes"
  write_module :: "'t \<Rightarrow> bytes"

text \<open>
  \<^verbatim>\<open>dir_prefix = f"{model_directory}/{model_prefix}"\<close> and the two artifact names
  built from it (lines 85 to 87, 91 and 102 to 103 of the script).
\<close>

definition default_prefix :: "string option \<Rightarrow> string" where
  "default_prefix model_prefix = (case model_prefix of None \<Rightarrow> ''model'' | Some p \<Rightarrow> p)"

definition dir_prefix :: "path \<Rightarrow> string \<Rightarrow> path" where
  "dir_prefix model_directory model_prefix = model_directory @ ''/'' @ model_prefix"

definition save_config_path :: "path \<Rightarrow> string option \<Rightarrow> path" where
  "save_config_path model_directory model_prefix =
     dir_prefix model_directory (default_prefix model_prefix) @ ''-config.json''"

definition save_tensors_path :: "path \<Rightarrow> string option \<Rightarrow> path" where
  "save_tensors_path model_directory model_prefix =
     dir_prefix model_directory (default_prefix model_prefix) @ ''.tensors''"

text \<open>
  Lines 94 to 99: the stream is opened for writing first; then the JSON text is written
  if the object has \<^verbatim>\<open>to_dict\<close>, else if it is a \<^verbatim>\<open>dict\<close>, else nothing is written.
\<close>

definition write_config :: "('j, 't) writer_lib \<Rightarrow> world \<Rightarrow> path \<Rightarrow> 'j pyobj \<Rightarrow> world" where
  "write_config L w config_path config =
     (let f = open_stream_wb w config_path in
      case to_dict config of
        Some d \<Rightarrow> stream_write f config_path (json_dumps L d)
      | None \<Rightarrow>
          (case dict_value config of
             Some d \<Rightarrow> stream_write f config_path (json_dumps L d)
           | None \<Rightarrow> f))"

text \<open>
  Lines 103 to 105: \<^verbatim>\<open>TensorSerializer(path)\<close> opens the location for writing,
  \<^verbatim>\<open>write_module\<close> writes the tensors, \<^verbatim>\<open>close\<close> ends the stream.
\<close>

definition write_tensors :: "('j, 't) writer_lib \<Rightarrow> world \<Rightarrow> path \<Rightarrow> 't \<Rightarrow> world" where
  "write_tensors L w p t = stream_write (open_stream_wb w p) p (write_module L t)"

text \<open>
  \<^verbatim>\<open>serialize_model(model, config, model_directory, model_prefix=None, force=False)\<close>.
  The two probes run first, the configuration probe before the tensor probe; an
  exception of either ends the call. Logging is left out.
\<close>

definition serialize_model ::
  "('j, 't) writer_lib \<Rightarrow> world \<Rightarrow> ('j, 't) nn_module \<Rightarrow> 'j pyobj option \<Rightarrow> path \<Rightarrow>
     string option \<Rightarrow> bool \<Rightarrow> exn + world" where
  "serialize_model L w model config model_directory model_prefix force =
     (case check_file_exists w (save_config_path model_directory model_prefix) of
        Inl e \<Rightarrow> Inl e
      | Inr config_file_exists \<Rightarrow>
     (case check_file_exists w (save_tensors_path model_directory model_prefix) of
        Inl e \<Rightarrow> Inl e
      | Inr weights_file_exists \<Rightarrow>
          (let config = (case config of None \<Rightarrow> Some (as_object model) | Some c \<Rightarrow> Some c);
               w1 = (case config of
                       None \<Rightarrow> w
                     | Some c \<Rightarrow>
                         if \<not> config_file_exists \<or> force
                         then write_config L w (save_config_path model_directory model_prefix) c
                         else w);
               w2 = (if \<not> weights_file_exists \<or> force
                     then write_tensors L w1 (save_tensors_path model_directory model_prefix)
                            (tensors model)
                     else w1)
           in Inr w2)))"

section \<open>Loading\<close>

text \<open>
  Modelled from the spec: the numeric kinds of a tensor, which are types of the tensor
  library. Section 6 names 32 and 16 bit floats, 8, 16, 32 and 64 bit integers and
  booleans. \<^verbatim>\<open>load_model\<close> only hands its \<^verbatim>\<open>dtype\<close> argument on to the
  deserializer.
\<close>

datatype dtype = Float32 | Float16 | Int8 | Int16 | Int32 | Int64 | Bool8

text \<open>
  A configuration object as a configuration class returns it: the attribute
  \<^verbatim>\<open>gradient_checkpointing\<close> (\<open>None\<close> while the object has no such attribute) and
  everything else it holds.
\<close>

record 'j hf_config =
  gradient_checkpointing :: "bool option"
  settings :: "'j"

text \<open>
  A configuration class (\<^verbatim>\<open>PretrainedConfig\<close>, \<^verbatim>\<open>AutoConfig\<close>, ...), which belongs
  to another library. \<open>from_pretrained_dir bs\<close> is
  \<^verbatim>\<open>config_class.from_pretrained(temp_dir)\<close> for a directory whose \<^verbatim>\<open>config.json\<close>
  holds \<open>bs\<close>; \<open>from_pretrained_at p\<close> is \<^verbatim>\<open>config_class.from_pretrained(p)\<close> for
  a location string.
\<close>

record 'j config_class =
  from_pretrained_dir :: "bytes \<Rightarrow> exn + 'j hf_config"
  from_pretrained_at :: "path \<Rightarrow> exn + 'j hf_config"

text \<open>
  A model class. \<open>from_config\<close> is \<open>Some f\<close> when the class has the attribute
  \<^verbatim>\<open>from_config\<close>; \<open>init_config c\<close> is \<^verbatim>\<open>model_class(c)\<close> and \<open>init_kwargs d\<close> is
  \<^verbatim>\<open>model_class(**d)\<close>. The type \<open>'m\<close> is that of the constructed module.
\<close>

record ('j, 'm) model_class =
  from_config :: "('j hf_config \<Rightarrow> exn + 'm) option"
  init_config :: "'j hf_config \<Rightarrow> exn + 'm"
  init_kwargs :: "'j \<Rightarrow> exn + 'm"

text \<open>
  The collaborators of \<^verbatim>\<open>load_model\<close> that are not defined in the script:
  \<open>json_loads bs\<close> is \<^verbatim>\<open>json.loads(bs.decode("utf-8"))\<close>;
  \<open>tensor_deserializer s dt\<close> is
  \<^verbatim>\<open>TensorDeserializer(s, device=device, dtype=dt, lazy_load=True)\<close>;
  \<open>load_into_module d m\<close> is \<^verbatim>\<open>d.load_into_module(m)\<close>, returning the module it
  has filled.
\<close>

record ('j, 'd, 'm) reader_lib =
  json_loads :: "bytes \<Rightarrow> exn + 'j"
  tensor_deserializer :: "bytes \<Rightarrow> dtype option \<Rightarrow> exn + 'd"
  load_into_module :: "'d \<Rightarrow> 'm \<Rightarrow> exn + 'm"

text \<open>
  The builtin \<^verbatim>\<open>open(p, "r")\<close> followed by reading the file: only a file of the
  local filesystem can be opened.
\<close>

definition py_open_r :: "world \<Rightarrow> path \<Rightarrow> exn + bytes" where
  "py_open_r w p =
     (if is_local w p
      then (case store w p of None \<Rightarrow> Inl FileNotFoundError | Some bs \<Rightarrow> Inr bs)
      else Inl FileNotFoundError)"

text \<open>Lines 140 and 141.\<close>

definition load_config_uri :: "path \<Rightarrow> string option \<Rightarrow> path" where
  "load_config_uri path_uri model_prefix =
     path_uri @ ''/'' @ default_prefix model_prefix @ ''-config.json''"

definition load_tensors_uri :: "path \<Rightarrow> string option \<Rightarrow> path" where
  "load_tensors_uri path_uri model_prefix =
     path_uri @ ''/'' @ default_prefix model_prefix @ ''.tensors''"

text \<open>
  Lines 151 to 158, the body of the first \<^verbatim>\<open>try\<close>: the artifact is copied into a
  temporary directory, the class loads that directory, and the attribute is set on the
  result.
\<close>

definition structured_first :: "world \<Rightarrow> 'j config_class \<Rightarrow> path \<Rightarrow> exn + 'j hf_config" where
  "structured_first w cc config_uri =
     (case open_stream_rb w config_uri of
        Inl e \<Rightarrow> Inl e
      | Inr bs \<Rightarrow>
          (case from_pretrained_dir cc bs of
             Inl e \<Rightarrow> Inl e
           | Inr config \<Rightarrow> Inr (config\<lparr>gradient_checkpointing := Some True\<rparr>)))"

text \<open>Lines 151 to 160: the \<^verbatim>\<open>try\<close> with its handler \<^verbatim>\<open>except ValueError\<close>.\<close>

definition load_config_structured ::
  "world \<Rightarrow> 'j config_class \<Rightarrow> path \<Rightarrow> exn + 'j hf_config" where
  "load_config_structured w cc config_uri =
     (case structured_first w cc config_uri of
        Inr config \<Rightarrow> Inr config
      | Inl e \<Rightarrow> if is_ValueError e then from_pretrained_at cc config_uri else Inl e)"

text \<open>Lines 168 to 170, the body of the second \<^verbatim>\<open>try\<close>.\<close>

definition flat_first :: "('j, 'd, 'm) reader_lib \<Rightarrow> world \<Rightarrow> path \<Rightarrow> exn + 'j" where
  "flat_first R w config_uri =
     (case open_stream_rb w config_uri of
        Inl e \<Rightarrow> Inl e
      | Inr bs \<Rightarrow> json_loads R bs)"

text \<open>Lines 172 and 173, the handler of the second \<^verbatim>\<open>try\<close>.\<close>

definition flat_second :: "('j, 'd, 'm) reader_lib \<Rightarrow> world \<Rightarrow> path \<Rightarrow> exn + 'j" where
  "flat_second R w config_uri =
     (case py_open_r w config_uri of
        Inl e \<Rightarrow> Inl e
      | Inr bs \<Rightarrow> json_loads R bs)"

definition load_config_flat :: "('j, 'd, 'm) reader_lib \<Rightarrow> world \<Rightarrow> path \<Rightarrow> exn + 'j" where
  "load_config_flat R w config_uri =
     (case flat_first R w config_uri of
        Inr config \<Rightarrow> Inr config
      | Inl e \<Rightarrow> if is_ValueError e then flat_second R w config_uri else Inl e)"

text \<open>
  Lines 150 to 175: the configuration is loaded and the empty module is built from it,
  through \<^verbatim>\<open>getattr(model_class, "from_config", model_class)\<close> when a configuration
  class was given and through \<^verbatim>\<open>model_class(**config)\<close> otherwise.
\<close>

definition build_model ::
  "('j, 'd, 'm) reader_lib \<Rightarrow> world \<Rightarrow> ('j, 'm) model_class \<Rightarrow> 'j config_class option \<Rightarrow>
     path \<Rightarrow> exn + 'm" where
  "build_model R w mc config_class config_uri =
     (case config_class of
        Some cc \<Rightarrow>
          (case load_config_structured w cc config_uri of
             Inl e \<Rightarrow> Inl e
           | Inr config \<Rightarrow>
               (case from_config mc of
                  Some config_loader \<Rightarrow> config_loader config
                | None \<Rightarrow> init_config mc config))
      | None \<Rightarrow>
          (case load_config_flat R w config_uri of
             Inl e \<Rightarrow> Inl e
           | Inr config \<Rightarrow> init_kwargs mc config))"

text \<open>
  \<^verbatim>\<open>load_model(path_uri, model_class, config_class, model_prefix, device, dtype)\<close>.
  The tensor stream is opened and the deserializer constructed before the
  configuration is read. Timing and logging are left out; the device does not enter
  any value modelled here.
\<close>

definition load_model ::
  "('j, 'd, 'm) reader_lib \<Rightarrow> world \<Rightarrow> path \<Rightarrow> ('j, 'm) model_class \<Rightarrow>
     'j config_class option \<Rightarrow> string option \<Rightarrow> dtype option \<Rightarrow> exn + 'm" where
  "load_model R w path_uri mc config_class model_prefix dt =
     (case open_stream_rb w (load_tensors_uri path_uri model_prefix) of
        Inl e \<Rightarrow> Inl e
      | Inr tensor_stream \<Rightarrow>
          (case tensor_deserializer R tensor_stream dt of
             Inl e \<Rightarrow> Inl e
           | Inr td \<Rightarrow>
               (case build_model R w mc config_class (load_config_uri path_uri model_prefix) of
                  Inl e \<Rightarrow> Inl e
                | Inr model \<Rightarrow> load_into_module R td model)))"

section \<open>The command-line entry point for transformers models\<close>

text \<open>
  Line 253 of \<^verbatim>\<open>hf_main\<close>:
  \<^verbatim>\<open>output_prefix[:-1] if output_prefix[-1] == "/" else output_prefix\<close>.
  Indexing the empty string raises \<^verbatim>\<open>IndexError\<close>.
\<close>

definition hf_output_prefix :: "string \<Rightarrow> exn + string" where
  "hf_output_prefix output_prefix =
     (if output_prefix = [] then Inl IndexError
      else if last output_prefix = CHR ''/'' then Inr (butlast output_prefix)
      else Inr output_prefix)"

section \<open>The tensor store\<close>

text \<open>
  Modelled from the spec: the tensor record of section 3, whose class is not part of
  the sources at hand: numeric kind, shape and raw payload, stored under a name. A
  collection is an ordered mapping from names to tensors, kept as a list of pairs.
\<close>

record tensor =
  t_dtype :: dtype
  t_shape :: "nat list"
  t_payload :: bytes

type_synonym tensor_collection = "(string \<times> tensor) list"

text \<open>
  Modelled from the spec: the header fields of the tensor artifact. The class
  \<^verbatim>\<open>tensorizer.TensorSerializer\<close> is not part of the sources at hand, and section 6
  leaves the exact byte layout open; here every length and dimension is a field of
  eight bytes, least significant byte first, and the numeric kind is one byte.
\<close>

fun le_bytes :: "nat \<Rightarrow> nat \<Rightarrow> bytes" where
  "le_bytes 0 n = []"
| "le_bytes (Suc k) n = char_of (n mod 256) # le_bytes k (n div 256)"

text \<open>
  Modelled from the spec: reading such a field back, the inverse of \<open>le_bytes\<close> on the
  values that fit.
\<close>

fun le_nat :: "bytes \<Rightarrow> nat" where
  "le_nat [] = 0"
| "le_nat (c # cs) = of_char c + 256 * le_nat cs"

text \<open>
  Modelled from the spec: a length or dimension as a header field of eight bytes. Of a
  value from \<open>2 ^ 64\<close> on only the low 64 bits are kept; \<open>fits\<close> below excludes
  such values.
\<close>

definition u64 :: "nat \<Rightarrow> bytes" where
  "u64 n = le_bytes 8 n"

text \<open>
  Modelled from the spec: the dtype tag of a header, drawn from a fixed enumerated set
  (section 6); the numbers are a choice of this model.
\<close>

fun dtype_tag :: "dtype \<Rightarrow> nat" where
  "dtype_tag Float32 = 0"
| "dtype_tag Float16 = 1"
| "dtype_tag Int8 = 2"
| "dtype_tag Int16 = 3"
| "dtype_tag Int32 = 4"
| "dtype_tag Int64 = 5"
| "dtype_tag Bool8 = 6"

text \<open>Modelled from the spec: the numeric kind a tag stands for, if any.\<close>

definition tag_dtype :: "nat \<Rightarrow> dtype option" where
  "tag_dtype n =
     (if n = 0 then Some Float32 else if n = 1 then Some Float16 else if n = 2 then Some Int8
      else if n = 3 then Some Int16 else if n = 4 then Some Int32 else if n = 5 then Some Int64
      else if n = 6 then Some Bool8 else None)"

text \<open>
  Modelled from the spec: \<^verbatim>\<open>TensorSerializer.write_module\<close>, which is not part of the
  sources at hand. Section 4.2: for each tensor in iteration order the writer appends a
  header (name length, name bytes, dtype tag, rank, shape dims, payload length)
  immediately followed by the raw payload bytes, without compression or padding, so
  that the artifact is the concatenation of self-describing records. The names of a
  module's tensors are the keys of a mapping; the check for duplicate names is not
  modelled.
\<close>

definition encode_tensor :: "string \<times> tensor \<Rightarrow> bytes" where
  "encode_tensor r =
     (case r of (name, t) \<Rightarrow>
        u64 (length name) @ name @ [char_of (dtype_tag (t_dtype t))] @
        u64 (length (t_shape t)) @ concat (map u64 (t_shape t)) @
        u64 (length (t_payload t)) @ t_payload t)"

text \<open>
  Modelled from the spec: the whole artifact, the records of the collection in
  iteration order one after the other (section 4.2).
\<close>

definition tensor_store_write :: "tensor_collection \<Rightarrow> bytes" where
  "tensor_store_write T = concat (map encode_tensor T)"

text \<open>
  Modelled from the spec: the parsing done by \<^verbatim>\<open>TensorDeserializer\<close>, which is not
  part of the sources at hand. Section 4.3: the reader finds every record from the
  headers and checks that the declared byte ranges lie within the stream; a malformed
  or truncated header or range is a \<^verbatim>\<open>CorruptArtifactError\<close>.
\<close>

definition read_bytes :: "nat \<Rightarrow> bytes \<Rightarrow> exn + (bytes \<times> bytes)" where
  "read_bytes n bs =
     (if length bs < n then Inl CorruptArtifactError else Inr (take n bs, drop n bs))"

text \<open>Modelled from the spec: reading one header field of eight bytes.\<close>

definition read_u64 :: "bytes \<Rightarrow> exn + (nat \<times> bytes)" where
  "read_u64 bs =
     (case read_bytes 8 bs of Inl e \<Rightarrow> Inl e | Inr (field, rest) \<Rightarrow> Inr (le_nat field, rest))"

text \<open>Modelled from the spec: reading as many shape dims as the rank says.\<close>

fun read_dims :: "nat \<Rightarrow> bytes \<Rightarrow> exn + (nat list \<times> bytes)" where
  "read_dims 0 bs = Inr ([], bs)"
| "read_dims (Suc k) bs =
     (case read_u64 bs of
        Inl e \<Rightarrow> Inl e
      | Inr (d, rest) \<Rightarrow>
          (case read_dims k rest of Inl e \<Rightarrow> Inl e | Inr (ds, rest') \<Rightarrow> Inr (d # ds, rest')))"

text \<open>
  Modelled from the spec: reading one record, the header fields in the order of section
  4.2 and then the payload of the declared length.
\<close>

definition read_record :: "bytes \<Rightarrow> exn + ((string \<times> tensor) \<times> bytes)" where
  "read_record bs =
     (case read_u64 bs of Inl e \<Rightarrow> Inl e | Inr (name_len, bs1) \<Rightarrow>
      case read_bytes name_len bs1 of Inl e \<Rightarrow> Inl e | Inr (name, bs2) \<Rightarrow>
      case read_bytes 1 bs2 of Inl e \<Rightarrow> Inl e | Inr (tag, bs3) \<Rightarrow>
      case tag_dtype (le_nat tag) of None \<Rightarrow> Inl CorruptArtifactError | Some dt \<Rightarrow>
      case read_u64 bs3 of Inl e \<Rightarrow> Inl e | Inr (rank, bs4) \<Rightarrow>
      case read_dims rank bs4 of Inl e \<Rightarrow> Inl e | Inr (shape, bs5) \<Rightarrow>
      case read_u64 bs5 of Inl e \<Rightarrow> Inl e | Inr (payload_len, bs6) \<Rightarrow>
      case read_bytes payload_len bs6 of Inl e \<Rightarrow> Inl e | Inr (payload, bs7) \<Rightarrow>
        Inr ((name, \<lparr>t_dtype = dt, t_shape = shape, t_payload = payload\<rparr>), bs7))"

text \<open>Every record takes at least its first field from the stream.\<close>

lemma read_bytes_length:
  "read_bytes n bs = Inr (x, rest) \<Longrightarrow> length rest = length bs - n \<and> n \<le> length bs"
  by (auto simp: read_bytes_def split: if_splits)

lemma read_u64_length: "read_u64 bs = Inr (x, rest) \<Longrightarrow> length rest < length bs"
  by (auto simp: read_u64_def read_bytes_def split: if_splits)

lemma read_dims_length: "read_dims k bs = Inr (x, rest) \<Longrightarrow> length rest \<le> length bs"
proof (induction k arbitrary: bs x rest)
  case 0
  then show ?case by simp
next
  case (Suc k)
  then show ?case
    by (fastforce split: sum.splits prod.splits dest: read_u64_length)
qed

lemma read_record_length: "read_record bs = Inr (r, rest) \<Longrightarrow> length rest < length bs"
  unfolding read_record_def
  by (auto split: sum.splits prod.splits option.splits
      dest!: read_u64_length read_bytes_length read_dims_length)

text \<open>
  Modelled from the spec: the directory of an artifact, all its records in order; the
  stream must end where a record ends.
\<close>

function read_directory :: "bytes \<Rightarrow> exn + tensor_collection" where
  "read_directory bs =
     (if bs = [] then Inr []
      else (case read_record bs of
              Inl e \<Rightarrow> Inl e
            | Inr (r, rest) \<Rightarrow>
                (case read_directory rest of Inl e \<Rightarrow> Inl e | Inr rs \<Rightarrow> Inr (r # rs))))"
  by pat_completeness auto
termination
  by (relation "measure length") (auto dest: read_record_length)

declare read_directory.simps [simp del]

text \<open>
  Modelled from the spec: \<^verbatim>\<open>TensorDeserializer(stream, device, dtype, lazy_load)\<close>
  and its \<^verbatim>\<open>load_into_module\<close>. Section 4.3: the binding goes through the slots of
  the target, looks each up by name in the directory, and for an entry it finds takes
  the stored tensor, cast to the requested kind if one was given; slots without an
  entry keep what they hold, entries without a slot are ignored. The cast is an
  operation of the tensor library and is a parameter here.
\<close>

record deserializer =
  directory :: tensor_collection
  requested :: "dtype option"

text \<open>
  Modelled from the spec: constructing the reader parses the directory first and keeps
  the requested kind (section 4.3).
\<close>

definition tensor_deserializer_open :: "bytes \<Rightarrow> dtype option \<Rightarrow> exn + deserializer" where
  "tensor_deserializer_open s dt =
     (case read_directory s of
        Inl e \<Rightarrow> Inl e
      | Inr rs \<Rightarrow> Inr \<lparr>directory = rs, requested = dt\<rparr>)"

text \<open>
  Modelled from the spec: binding one slot of the target (section 4.3), by name; the
  first entry of that name counts.
\<close>

definition bind_slot ::
  "(dtype \<Rightarrow> tensor \<Rightarrow> tensor) \<Rightarrow> deserializer \<Rightarrow> string \<times> tensor \<Rightarrow> string \<times> tensor" where
  "bind_slot cast d slot =
     (case slot of (name, initial) \<Rightarrow>
        (case map_of (directory d) name of
           None \<Rightarrow> (name, initial)
         | Some t \<Rightarrow> (name, (case requested d of None \<Rightarrow> t | Some dt \<Rightarrow> cast dt t))))"

text \<open>
  Modelled from the spec: \<^verbatim>\<open>load_into_module\<close> binds every slot of the target and
  raises nothing (section 4.3).
\<close>

definition load_into ::
  "(dtype \<Rightarrow> tensor \<Rightarrow> tensor) \<Rightarrow> deserializer \<Rightarrow> tensor_collection \<Rightarrow>
     exn + tensor_collection" where
  "load_into cast d target = Inr (map (bind_slot cast d) target)"

text \<open>The two libraries with the tensor store in place.\<close>

definition tensor_writer :: "('j \<Rightarrow> bytes) \<Rightarrow> ('j, tensor_collection) writer_lib" where
  "tensor_writer dumps = \<lparr>json_dumps = dumps, write_module = tensor_store_write\<rparr>"

definition tensor_reader ::
  "(bytes \<Rightarrow> exn + 'j) \<Rightarrow> (dtype \<Rightarrow> tensor \<Rightarrow> tensor) \<Rightarrow>
     ('j, deserializer, tensor_collection) reader_lib" where
  "tensor_reader loads cast =
     \<lparr>json_loads = loads, tensor_deserializer = tensor_deserializer_open,
      load_into_module = load_into cast\<rparr>"

text \<open>The sizes of a record fit the fields of its header.\<close>

definition fits :: "string \<times> tensor \<Rightarrow> bool" where
  "fits r =
     (case r of (name, t) \<Rightarrow>
        length name < 2 ^ 64 \<and> length (t_shape t) < 2 ^ 64 \<and>
        list_all (\<lambda>d. d < 2 ^ 64) (t_shape t) \<and> length (t_payload t) < 2 ^ 64)"

section \<open>Example worlds and objects\<close>

text \<open>An empty local directory tree, and an empty remote store.\<close>

definition empty_local :: world where
  "empty_local = \<lparr>is_local = (\<lambda>p. True), store = Map.empty, fault = Map.empty, written = []\<rparr>"

definition empty_remote :: world where
  "empty_remote = \<lparr>is_local = (\<lambda>p. False), store = Map.empty, fault = Map.empty, written = []\<rparr>"

text \<open>A local directory \<^verbatim>\<open>out\<close> that already holds both artifacts of the prefix \<^verbatim>\<open>model\<close>.\<close>

definition complete_local :: world where
  "complete_local =
     \<lparr>is_local = (\<lambda>p. True),
      store = [''out/model-config.json'' \<mapsto> ''{}'', ''out/model.tensors'' \<mapsto> ''old''],
      fault = Map.empty, written = []\<rparr>"

text \<open>
  Local directories in which opening a file that is not there raises
  \<^verbatim>\<open>FileNotFoundError\<close>, as the builtin \<^verbatim>\<open>open\<close> does: an empty one, one in which
  \<^verbatim>\<open>out\<close> holds the configuration artifact only, one that holds both artifacts with
  a configuration artifact of zero bytes, and one that holds both artifacts of the
  prefix \<^verbatim>\<open>unet\<close>.
\<close>

definition fresh_dir :: world where
  "fresh_dir =
     \<lparr>is_local = (\<lambda>p. True), store = Map.empty,
      fault = (\<lambda>p. Some FileNotFoundError), written = []\<rparr>"

definition config_only_dir :: world where
  "config_only_dir =
     \<lparr>is_local = (\<lambda>p. True),
      store = [''out/model-config.json'' \<mapsto> ''{}''],
      fault = (\<lambda>p. if p = ''out/model-config.json'' then None else Some FileNotFoundError),
      written = []\<rparr>"

definition truncated_dir :: world where
  "truncated_dir =
     \<lparr>is_local = (\<lambda>p. True),
      store = [''out/model-config.json'' \<mapsto> [], ''out/model.tensors'' \<mapsto> ''old''],
      fault = (\<lambda>p. if p = ''out/model-config.json'' \<or> p = ''out/model.tensors'' then None
                   else Some FileNotFoundError),
      written = []\<rparr>"

definition unet_dir :: world where
  "unet_dir =
     \<lparr>is_local = (\<lambda>p. True),
      store = [''out/unet-config.json'' \<mapsto> ''{}'', ''out/unet.tensors'' \<mapsto> ''old''],
      fault = (\<lambda>p. if p = ''out/unet-config.json'' \<or> p = ''out/unet.tensors'' then None
                   else Some FileNotFoundError),
      written = []\<rparr>"

text \<open>
  A writer library whose JSON values and tensors are already byte strings, a module
  that is neither a \<^verbatim>\<open>dict\<close> nor has \<^verbatim>\<open>to_dict\<close>, and a configuration given as a
  \<^verbatim>\<open>dict\<close>.
\<close>

definition plain_writer :: "(bytes, bytes) writer_lib" where
  "plain_writer = \<lparr>json_dumps = (\<lambda>d. d), write_module = (\<lambda>t. t)\<rparr>"

definition bare_module :: "(bytes, bytes) nn_module" where
  "bare_module = \<lparr>as_object = \<lparr>to_dict = None, dict_value = None\<rparr>, tensors = ''new''\<rparr>"

definition dict_config :: "bytes pyobj" where
  "dict_config = \<lparr>to_dict = None, dict_value = Some ''{ }''\<rparr>"

text \<open>A remote store in which the base \<^verbatim>\<open>s3://bucket/out\<close> holds both artifacts.\<close>

definition complete_remote :: world where
  "complete_remote =
     \<lparr>is_local = (\<lambda>p. False),
      store = [''s3://bucket/out/model-config.json'' \<mapsto> ''{}'',
               ''s3://bucket/out/model.tensors'' \<mapsto> ''old''],
      fault = Map.empty, written = []\<rparr>"

text \<open>
  A reader library over the same plain types: the JSON text and the tensor stream are
  taken as they are, and filling a module replaces its content by the stream's.
\<close>

definition plain_reader :: "(bytes, bytes, bytes) reader_lib" where
  "plain_reader =
     \<lparr>json_loads = (\<lambda>bs. if bs = [] then Inl JSONDecodeError else Inr bs),
      tensor_deserializer = (\<lambda>s dt. Inr s),
      load_into_module = (\<lambda>d m. Inr d)\<rparr>"

text \<open>
  Configuration classes: one that rejects the temporary directory with a
  \<^verbatim>\<open>ValueError\<close> and the location with an \<^verbatim>\<open>OSError\<close>; one that rejects an empty
  \<^verbatim>\<open>config.json\<close> with a \<^verbatim>\<open>ValueError\<close> and otherwise keeps what it is given,
  with \<^verbatim>\<open>gradient_checkpointing\<close> false; and one like it whose configurations come
  with \<^verbatim>\<open>gradient_checkpointing\<close> true.
\<close>

definition rejecting_class :: "bytes config_class" where
  "rejecting_class =
     \<lparr>from_pretrained_dir = (\<lambda>bs. Inl ValueError),
      from_pretrained_at = (\<lambda>p. Inl OSError)\<rparr>"

definition json_class :: "bytes config_class" where
  "json_class =
     \<lparr>from_pretrained_dir =
        (\<lambda>bs. if bs = [] then Inl ValueError
              else Inr \<lparr>gradient_checkpointing = Some False, settings = bs\<rparr>),
      from_pretrained_at = (\<lambda>p. Inr \<lparr>gradient_checkpointing = Some False, settings = p\<rparr>)\<rparr>"

definition checkpointing_class :: "bytes config_class" where
  "checkpointing_class =
     \<lparr>from_pretrained_dir =
        (\<lambda>bs. if bs = [] then Inl ValueError
              else Inr \<lparr>gradient_checkpointing = Some True, settings = bs\<rparr>),
      from_pretrained_at = (\<lambda>p. Inr \<lparr>gradient_checkpointing = Some True, settings = p\<rparr>)\<rparr>"

text \<open>A model class without \<^verbatim>\<open>from_config\<close> whose constructor keeps the settings.\<close>

definition plain_model_class :: "(bytes, bytes) model_class" where
  "plain_model_class =
     \<lparr>from_config = None,
      init_config = (\<lambda>c. Inr (settings c)),
      init_kwargs = (\<lambda>d. Inr d)\<rparr>"

text \<open>
  Two collections with the one name \<^verbatim>\<open>w1\<close>, a module holding the second, a local
  directory that holds the first, the same directory after the second was saved into
  the empty one, a model class that declares the slot \<^verbatim>\<open>w1\<close>, a JSON reader that
  rejects the empty text, and a stand-in for the cast.
\<close>

definition old_tensors :: tensor_collection where
  "old_tensors = [(''w1'', \<lparr>t_dtype = Float32, t_shape = [1], t_payload = ''aaaa''\<rparr>)]"

definition new_tensors :: tensor_collection where
  "new_tensors = [(''w1'', \<lparr>t_dtype = Float32, t_shape = [1], t_payload = ''bbbb''\<rparr>)]"

definition new_module :: "(bytes, tensor_collection) nn_module" where
  "new_module = \<lparr>as_object = \<lparr>to_dict = None, dict_value = None\<rparr>, tensors = new_tensors\<rparr>"

definition stale_local :: world where
  "stale_local =
     \<lparr>is_local = (\<lambda>p. True),
      store = [''out/model-config.json'' \<mapsto> ''{}'',
               ''out/model.tensors'' \<mapsto> tensor_store_write old_tensors],
      fault = Map.empty, written = []\<rparr>"

definition saved_local :: world where
  "saved_local =
     \<lparr>is_local = (\<lambda>p. True),
      store = [''out/model-config.json'' \<mapsto> ''{ }'',
               ''out/model.tensors'' \<mapsto> tensor_store_write new_tensors],
      fault = Map.empty, written = [''out/model-config.json'', ''out/model.tensors'']\<rparr>"

definition slot_class :: "(bytes, tensor_collection) model_class" where
  "slot_class =
     \<lparr>from_config = None,
      init_config = (\<lambda>c. Inr [(''w1'', \<lparr>t_dtype = Float32, t_shape = [], t_payload = []\<rparr>)]),
      init_kwargs = (\<lambda>d. Inr [(''w1'', \<lparr>t_dtype = Float32, t_shape = [], t_payload = []\<rparr>)])\<rparr>"

definition plain_loads :: "bytes \<Rightarrow> exn + bytes" where
  "plain_loads bs = (if bs = [] then Inl JSONDecodeError else Inr bs)"

definition retag :: "dtype \<Rightarrow> tensor \<Rightarrow> tensor" where
  "retag dt t = t\<lparr>t_dtype := dt\<rparr>"

text \<open>The result of a call that returns satisfies a predicate.\<close>

abbreviation returns :: "exn + 'a \<Rightarrow> ('a \<Rightarrow> bool) \<Rightarrow> bool" where
  "returns r P \<equiv> (case r of Inl e \<Rightarrow> False | Inr x \<Rightarrow> P x)"

section \<open>Properties of the existence probe\<close>

text \<open>
  C5. For every location, \<open>check_file_exists\<close> answers true when the local path exists,
  and otherwise, once the stream is open, true when reading one byte delivers a byte and
  false when it delivers the empty byte string.
\<close>

theorem check_file_exists_probe:
  "(os_path_exists w file \<longrightarrow> check_file_exists w file = Inr True) \<and>
   (\<not> os_path_exists w file \<and> open_stream_rb w file = Inr f \<and> stream_read 1 f \<noteq> []
      \<longrightarrow> check_file_exists w file = Inr True) \<and>
   (\<not> os_path_exists w file \<and> open_stream_rb w file = Inr f \<and> stream_read 1 f = []
      \<longrightarrow> check_file_exists w file = Inr False)"
  by (simp add: check_file_exists_def)

theorem check_file_exists_probe_witness:
  "os_path_exists complete_local ''out/model.tensors'' \<and>
   check_file_exists complete_local ''out/model.tensors'' = Inr True \<and>
   \<not> os_path_exists complete_remote ''s3://bucket/out/model.tensors'' \<and>
   open_stream_rb complete_remote ''s3://bucket/out/model.tensors'' = Inr ''old'' \<and>
   stream_read 1 ''old'' \<noteq> [] \<and>
   check_file_exists complete_remote ''s3://bucket/out/model.tensors'' = Inr True \<and>
   \<not> os_path_exists empty_remote ''s3://bucket/out/model.tensors'' \<and>
   open_stream_rb empty_remote ''s3://bucket/out/model.tensors'' = Inr [] \<and>
   stream_read 1 [] = [] \<and>
   check_file_exists empty_remote ''s3://bucket/out/model.tensors'' = Inr False"
  using check_file_exists_probe [of complete_local "''out/model.tensors''" "[]"]
    check_file_exists_probe [of complete_remote "''s3://bucket/out/model.tensors''" "''old''"]
    check_file_exists_probe [of empty_remote "''s3://bucket/out/model.tensors''" "[]"]
  by (simp add: os_path_exists_def open_stream_rb_def stream_read_def complete_local_def
      complete_remote_def empty_remote_def)

section \<open>Effects of the writers\<close>

lemma config_tensors_distinct: "save_config_path d p \<noteq> save_tensors_path d p"
  by (simp add: save_config_path_def save_tensors_path_def)

lemma written_write_config: "written (write_config L w p c) = written w @ [p]"
  by (simp add: write_config_def open_stream_wb_def stream_write_def Let_def split: option.splits)

lemma store_write_config_same:
  "store (write_config L w p c) p =
     Some (case to_dict c of
             Some d \<Rightarrow> json_dumps L d
           | None \<Rightarrow> (case dict_value c of Some d \<Rightarrow> json_dumps L d | None \<Rightarrow> []))"
  by (simp add: write_config_def open_stream_wb_def stream_write_def Let_def split: option.splits)

lemma written_write_tensors: "written (write_tensors L w p t) = written w @ [p]"
  by (simp add: write_tensors_def open_stream_wb_def stream_write_def)

lemma store_write_tensors_other: "q \<noteq> p \<Longrightarrow> store (write_tensors L w p t) q = store w q"
  by (simp add: write_tensors_def open_stream_wb_def stream_write_def)

lemma store_write_tensors_same: "store (write_tensors L w p t) p = Some (write_module L t)"
  by (simp add: write_tensors_def open_stream_wb_def stream_write_def)

text \<open>Once both probes have answered, the call is the two guarded writes.\<close>

lemma serialize_model_probed:
  assumes "check_file_exists w (save_config_path d p) = Inr ce"
    and "check_file_exists w (save_tensors_path d p) = Inr te"
  shows "serialize_model L w model config d p force =
     Inr (let c = (case config of None \<Rightarrow> as_object model | Some c \<Rightarrow> c);
              w1 = (if \<not> ce \<or> force then write_config L w (save_config_path d p) c else w)
          in if \<not> te \<or> force then write_tensors L w1 (save_tensors_path d p) (tensors model) else w1)"
  using assms by (simp add: serialize_model_def Let_def split: option.splits)

lemma serialize_model_frame:
  assumes "serialize_model L w model config d p force = Inr w'"
  shows "(\<forall>q. q \<noteq> save_config_path d p \<and> q \<noteq> save_tensors_path d p \<longrightarrow> store w' q = store w q) \<and>
         set (written w') \<subseteq> set (written w) \<union> {save_config_path d p, save_tensors_path d p} \<and>
         is_local w' = is_local w \<and> fault w' = fault w"
  using assms
  by (auto simp add: serialize_model_def Let_def write_config_def write_tensors_def
      open_stream_wb_def stream_write_def split: sum.splits option.splits if_splits)

lemma complete_local_config:
  "check_file_exists complete_local (save_config_path ''out'' None) = Inr True"
  by (simp add: check_file_exists_def os_path_exists_def complete_local_def
      save_config_path_def dir_prefix_def default_prefix_def)

lemma complete_local_tensors:
  "check_file_exists complete_local (save_tensors_path ''out'' None) = Inr True"
  by (simp add: check_file_exists_def os_path_exists_def complete_local_def
      save_tensors_path_def dir_prefix_def default_prefix_def)

section \<open>Properties of saving\<close>

text \<open>
  C2. At a location where both probes answer that the artifact exists, a call of
  \<open>serialize_model\<close> with \<open>force = False\<close> returns with the world unchanged: no stream
  is opened for writing. A call with \<open>force = True\<close> opens the configuration artifact
  and then the tensor artifact for writing and leaves them with the newly produced
  contents.
\<close>

theorem serialize_model_skip_and_force:
  assumes "check_file_exists w (save_config_path d p) = Inr True"
    and "check_file_exists w (save_tensors_path d p) = Inr True"
  shows "serialize_model L w model config d p False = Inr w \<and>
         returns (serialize_model L w model config d p True) (\<lambda>w'.
            written w' = written w @ [save_config_path d p, save_tensors_path d p] \<and>
            store w' (save_config_path d p) =
              Some (let c = (case config of None \<Rightarrow> as_object model | Some c \<Rightarrow> c) in
                    case to_dict c of
                      Some j \<Rightarrow> json_dumps L j
                    | None \<Rightarrow> (case dict_value c of Some j \<Rightarrow> json_dumps L j | None \<Rightarrow> [])) \<and>
            store w' (save_tensors_path d p) = Some (write_module L (tensors model)))"
  using config_tensors_distinct [of d p]
  by (simp add: serialize_model_probed [OF assms] Let_def written_write_config
      written_write_tensors store_write_tensors_same store_write_tensors_other
      store_write_config_same)

theorem serialize_model_skip_and_force_witness:
  "check_file_exists complete_local (save_config_path ''out'' None) = Inr True \<and>
   check_file_exists complete_local (save_tensors_path ''out'' None) = Inr True \<and>
   serialize_model plain_writer complete_local bare_module (Some dict_config) ''out'' None False
     = Inr complete_local \<and>
   returns (serialize_model plain_writer complete_local bare_module (Some dict_config)
              ''out'' None True) (\<lambda>w'.
      written w' = written complete_local @
        [save_config_path ''out'' None, save_tensors_path ''out'' None] \<and>
      store w' (save_config_path ''out'' None) =
        Some (let c = (case Some dict_config of None \<Rightarrow> as_object bare_module | Some c \<Rightarrow> c) in
              case to_dict c of
                Some j \<Rightarrow> json_dumps plain_writer j
              | None \<Rightarrow> (case dict_value c of Some j \<Rightarrow> json_dumps plain_writer j | None \<Rightarrow> [])) \<and>
      store w' (save_tensors_path ''out'' None) =
        Some (write_module plain_writer (tensors bare_module)))"
  using complete_local_config complete_local_tensors
    serialize_model_skip_and_force [OF complete_local_config complete_local_tensors,
      where L = plain_writer and model = bare_module and config = "Some dict_config"]
  by simp

text \<open>
  Where the probe of the tensor artifact answers false, a call with \<open>force = False\<close>
  over an existing configuration artifact writes the tensor artifact, opens no other
  stream for writing and leaves the bytes of the configuration artifact as they were.
\<close>

lemma serialize_model_resume:
  assumes "check_file_exists w (save_config_path d p) = Inr True"
    and "check_file_exists w (save_tensors_path d p) = Inr False"
  shows "returns (serialize_model L w model config d p False) (\<lambda>w'.
           store w' (save_config_path d p) = store w (save_config_path d p) \<and>
           store w' (save_tensors_path d p) = Some (write_module L (tensors model)) \<and>
           written w' = written w @ [save_tensors_path d p])"
  using config_tensors_distinct [of d p]
  by (simp add: serialize_model_probed [OF assms] Let_def written_write_tensors
      store_write_tensors_same store_write_tensors_other)

text \<open>
  C3. The probe does not answer false where the adapter raises at the missing tensor
  artifact: \<open>check_file_exists\<close> has no handler, so the error of opening the stream is
  the result of the probe and of the whole call. With the configuration artifact in
  place and the tensor artifact missing, \<open>serialize_model\<close> with \<open>force = False\<close> then
  raises instead of writing the tensor artifact.
\<close>

theorem serialize_model_resume_aborts:
  assumes "check_file_exists w (save_config_path d p) = Inr True"
    and "\<not> os_path_exists w (save_tensors_path d p)"
    and "fault w (save_tensors_path d p) = Some e"
  shows "check_file_exists w (save_tensors_path d p) = Inl e \<and>
         serialize_model L w model config d p False = Inl e"
  using assms by (simp add: serialize_model_def check_file_exists_def open_stream_rb_def)

theorem serialize_model_resume_aborts_witness:
  "check_file_exists config_only_dir ''out/model-config.json'' = Inr True \<and>
   \<not> os_path_exists config_only_dir ''out/model.tensors'' \<and>
   fault config_only_dir ''out/model.tensors'' = Some FileNotFoundError \<and>
   check_file_exists config_only_dir ''out/model.tensors'' = Inl FileNotFoundError \<and>
   serialize_model plain_writer config_only_dir bare_module (Some dict_config) ''out'' None False
     = Inl FileNotFoundError"
  using serialize_model_resume_aborts [where w = config_only_dir and d = "''out''" and p = None
      and e = FileNotFoundError and L = plain_writer and model = bare_module
      and config = "Some dict_config"]
  by (simp add: check_file_exists_def os_path_exists_def config_only_dir_def
      save_config_path_def save_tensors_path_def dir_prefix_def default_prefix_def)

text \<open>
  C4. The call \<open>serialize_model\<close> with \<open>config = None\<close> and a module that has no
  \<^verbatim>\<open>to_dict\<close> and is not a \<^verbatim>\<open>dict\<close>, evaluated. In an empty local directory the
  configuration path is opened for writing and left holding zero bytes, so that the
  probe finds it afterwards; with \<open>force = True\<close> an existing configuration artifact is
  cut down to zero bytes.
\<close>

theorem bare_module_config_artifact:
  "serialize_model plain_writer empty_local bare_module None ''out'' None False =
     Inr (empty_local\<lparr>store := [''out/model-config.json'' \<mapsto> [], ''out/model.tensors'' \<mapsto> ''new''],
                      written := [''out/model-config.json'', ''out/model.tensors'']\<rparr>) \<and>
   check_file_exists
     (empty_local\<lparr>store := [''out/model-config.json'' \<mapsto> [], ''out/model.tensors'' \<mapsto> ''new''],
                  written := [''out/model-config.json'', ''out/model.tensors'']\<rparr>)
     ''out/model-config.json'' = Inr True \<and>
   store complete_local ''out/model-config.json'' = Some ''{}'' \<and>
   returns (serialize_model plain_writer complete_local bare_module None ''out'' None True)
     (\<lambda>w'. store w' ''out/model-config.json'' = Some [])"
  by (simp add: serialize_model_def check_file_exists_def os_path_exists_def open_stream_rb_def
      stream_read_def save_config_path_def save_tensors_path_def dir_prefix_def
      default_prefix_def write_config_def write_tensors_def open_stream_wb_def
      stream_write_def empty_local_def complete_local_def plain_writer_def bare_module_def
      Let_def)

theorem bare_module_config_artifact_witness:
  "serialize_model plain_writer empty_local bare_module None ''out'' None False =
     Inr (empty_local\<lparr>store := [''out/model-config.json'' \<mapsto> [], ''out/model.tensors'' \<mapsto> ''new''],
                      written := [''out/model-config.json'', ''out/model.tensors'']\<rparr>)"
  using bare_module_config_artifact by (rule conjunct1)

text \<open>
  C6. At a location that holds no configuration artifact and at which the adapter
  raises when asked to open it, the first probe of \<open>serialize_model\<close> does not answer
  false: the error is the result of \<open>check_file_exists\<close> and of the whole call, for
  every value of \<open>force\<close>, and nothing is written.
\<close>

theorem serialize_model_fresh_location_aborts:
  assumes "\<not> os_path_exists w (save_config_path d p)"
    and "fault w (save_config_path d p) = Some e"
  shows "check_file_exists w (save_config_path d p) = Inl e \<and>
         serialize_model L w model config d p force = Inl e"
  using assms by (simp add: serialize_model_def check_file_exists_def open_stream_rb_def)

theorem serialize_model_fresh_location_aborts_witness:
  "\<not> os_path_exists fresh_dir ''out/model-config.json'' \<and>
   fault fresh_dir ''out/model-config.json'' = Some FileNotFoundError \<and>
   check_file_exists fresh_dir ''out/model-config.json'' = Inl FileNotFoundError \<and>
   serialize_model plain_writer fresh_dir bare_module (Some dict_config) ''out'' None False
     = Inl FileNotFoundError \<and>
   serialize_model plain_writer fresh_dir bare_module (Some dict_config) ''out'' None True
     = Inl FileNotFoundError"
  using serialize_model_fresh_location_aborts [where w = fresh_dir and d = "''out''" and p = None
      and e = FileNotFoundError and L = plain_writer and model = bare_module
      and config = "Some dict_config" and force = False]
    serialize_model_fresh_location_aborts [where w = fresh_dir and d = "''out''" and p = None
      and e = FileNotFoundError and L = plain_writer and model = bare_module
      and config = "Some dict_config" and force = True]
  by (simp add: os_path_exists_def fresh_dir_def save_config_path_def dir_prefix_def
      default_prefix_def)

section \<open>Addressing of the artifacts\<close>

lemma open_stream_rb_cong:
  "store w1 q = store w2 q \<Longrightarrow> fault w1 q = fault w2 q \<Longrightarrow>
     open_stream_rb w1 q = open_stream_rb w2 q"
  by (simp add: open_stream_rb_def split: option.splits)

lemma py_open_r_cong:
  "store w1 q = store w2 q \<Longrightarrow> is_local w1 q = is_local w2 q \<Longrightarrow>
     py_open_r w1 q = py_open_r w2 q"
  by (simp add: py_open_r_def split: option.splits)

lemma build_model_cong:
  assumes "open_stream_rb w1 q = open_stream_rb w2 q" and "py_open_r w1 q = py_open_r w2 q"
  shows "build_model R w1 mc cc q = build_model R w2 mc cc q"
proof -
  have s: "structured_first w1 c q = structured_first w2 c q" for c
    by (simp add: structured_first_def assms(1))
  have f1: "flat_first R w1 q = flat_first R w2 q"
    by (simp add: flat_first_def assms(1))
  have f2: "flat_second R w1 q = flat_second R w2 q"
    by (simp add: flat_second_def assms(2))
  show ?thesis
    unfolding build_model_def load_config_structured_def load_config_flat_def s f1 f2 ..
qed

text \<open>\<open>load_model\<close> looks at the world at its two locations only.\<close>

lemma load_model_frame:
  assumes "store w1 (load_tensors_uri b p) = store w2 (load_tensors_uri b p)"
    and "fault w1 (load_tensors_uri b p) = fault w2 (load_tensors_uri b p)"
    and "store w1 (load_config_uri b p) = store w2 (load_config_uri b p)"
    and "fault w1 (load_config_uri b p) = fault w2 (load_config_uri b p)"
    and "is_local w1 (load_config_uri b p) = is_local w2 (load_config_uri b p)"
  shows "load_model R w1 b mc cc p dt = load_model R w2 b mc cc p dt"
proof -
  have t: "open_stream_rb w1 (load_tensors_uri b p) = open_stream_rb w2 (load_tensors_uri b p)"
    using assms(1,2) by (rule open_stream_rb_cong)
  have c: "open_stream_rb w1 (load_config_uri b p) = open_stream_rb w2 (load_config_uri b p)"
    using assms(3,4) by (rule open_stream_rb_cong)
  have o: "py_open_r w1 (load_config_uri b p) = py_open_r w2 (load_config_uri b p)"
    using assms(3,5) by (rule py_open_r_cong)
  show ?thesis
    unfolding load_model_def t build_model_cong [OF c o] ..
qed

lemma save_paths:
  "save_config_path base pfx = base @ ''/'' @ default_prefix pfx @ ''-config.json''"
  "save_tensors_path base pfx = base @ ''/'' @ default_prefix pfx @ ''.tensors''"
  by (simp_all add: save_config_path_def save_tensors_path_def dir_prefix_def)

lemma load_paths:
  "load_config_uri base pfx = base @ ''/'' @ default_prefix pfx @ ''-config.json''"
  "load_tensors_uri base pfx = base @ ''/'' @ default_prefix pfx @ ''.tensors''"
  by (simp_all add: load_config_uri_def load_tensors_uri_def)

lemma store_write_config_other: "q \<noteq> p \<Longrightarrow> store (write_config L w p c) q = store w q"
  by (simp add: write_config_def open_stream_wb_def stream_write_def Let_def split: option.splits)

text \<open>
  What a call of \<open>serialize_model\<close> whose probes have answered leaves behind: the
  streams it opened for writing, in order, the new contents, and everything else as it
  was.
\<close>

lemma serialize_model_writes:
  assumes "check_file_exists w (save_config_path base pfx) = Inr ce"
    and "check_file_exists w (save_tensors_path base pfx) = Inr te"
  shows "returns (serialize_model L w model config base pfx force) (\<lambda>w'.
           written w' = written w @ (if \<not> ce \<or> force then [save_config_path base pfx] else []) @
                         (if \<not> te \<or> force then [save_tensors_path base pfx] else []) \<and>
           (\<not> ce \<or> force \<longrightarrow>
              store w' (save_config_path base pfx) =
                Some (let c = (case config of None \<Rightarrow> as_object model | Some c \<Rightarrow> c) in
                      case to_dict c of
                        Some j \<Rightarrow> json_dumps L j
                      | None \<Rightarrow> (case dict_value c of Some j \<Rightarrow> json_dumps L j | None \<Rightarrow> []))) \<and>
           (\<not> te \<or> force \<longrightarrow>
              store w' (save_tensors_path base pfx) = Some (write_module L (tensors model))) \<and>
           (\<forall>q. q \<noteq> save_config_path base pfx \<and> q \<noteq> save_tensors_path base pfx
                \<longrightarrow> store w' q = store w q))"
  using config_tensors_distinct [of base pfx]
  by (simp add: serialize_model_probed [OF assms] Let_def written_write_config
      written_write_tensors store_write_tensors_same store_write_tensors_other
      store_write_config_same store_write_config_other)

text \<open>
  \<open>load_model\<close> opens the tensor artifact first, so that an error of the adapter there
  is the result; with both streams open, the result is built from what they deliver.
\<close>

lemma load_model_opens_tensors_first:
  assumes "fault w (load_tensors_uri base pfx) = Some e"
  shows "load_model R w base mc cc pfx dt = Inl e"
  using assms by (simp add: load_model_def open_stream_rb_def)

lemma load_model_flat:
  assumes "open_stream_rb w (load_tensors_uri base pfx) = Inr ts"
    and "tensor_deserializer R ts dt = Inr td"
    and "open_stream_rb w (load_config_uri base pfx) = Inr bs"
    and "json_loads R bs = Inr j"
  shows "load_model R w base mc None pfx dt =
           (case init_kwargs mc j of Inl e \<Rightarrow> Inl e | Inr m \<Rightarrow> load_into_module R td m)"
  using assms
  by (simp add: load_model_def build_model_def load_config_flat_def flat_first_def)

lemma load_model_structured:
  assumes "open_stream_rb w (load_tensors_uri base pfx) = Inr ts"
    and "tensor_deserializer R ts dt = Inr td"
    and "open_stream_rb w (load_config_uri base pfx) = Inr bs"
    and "from_pretrained_dir cc bs = Inr c"
  shows "load_model R w base mc (Some cc) pfx dt =
           (case (case from_config mc of Some config_loader \<Rightarrow> config_loader
                  | None \<Rightarrow> init_config mc) (c\<lparr>gradient_checkpointing := Some True\<rparr>) of
              Inl e \<Rightarrow> Inl e
            | Inr m \<Rightarrow> load_into_module R td m)"
  using assms
  by (simp add: load_model_def build_model_def load_config_structured_def structured_first_def
      split: option.splits)

text \<open>
  C8. Let \<open>p\<close> be the prefix, \<^verbatim>\<open>model\<close> when none is given. \<open>serialize_model\<close>
  probes the names base, slash, \<open>p\<close>, \<^verbatim>\<open>-config.json\<close> and base, slash, \<open>p\<close>,
  \<^verbatim>\<open>.tensors\<close>; what it opens for writing are these two names, in this order and as
  far as its guards allow; there it leaves the configuration text and the written
  tensors, and it changes no other name. \<open>load_model\<close> reads the same two names: what
  it returns is built from the stream at the tensor name and from the configuration
  parsed from the stream at the configuration name, an error of the adapter at the
  tensor name is its result, and two worlds that agree at the two names give the same
  result.
\<close>

theorem artifacts_addressed:
  assumes "check_file_exists w (base @ ''/'' @ default_prefix pfx @ ''-config.json'') = Inr ce"
    and "check_file_exists w (base @ ''/'' @ default_prefix pfx @ ''.tensors'') = Inr te"
    and "open_stream_rb v (base @ ''/'' @ default_prefix pfx @ ''.tensors'') = Inr ts"
    and "tensor_deserializer R ts dt = Inr td"
    and "open_stream_rb v (base @ ''/'' @ default_prefix pfx @ ''-config.json'') = Inr bs"
    and "json_loads R bs = Inr j"
    and "from_pretrained_dir cc bs = Inr c"
    and "fault u (base @ ''/'' @ default_prefix pfx @ ''.tensors'') = Some e"
  shows "default_prefix None = ''model'' \<and> default_prefix (Some x) = x \<and>
         returns (serialize_model L w model config base pfx force) (\<lambda>w'.
           written w' =
             written w @
             (if \<not> ce \<or> force then [base @ ''/'' @ default_prefix pfx @ ''-config.json''] else []) @
             (if \<not> te \<or> force then [base @ ''/'' @ default_prefix pfx @ ''.tensors''] else []) \<and>
           (\<not> ce \<or> force \<longrightarrow>
              store w' (base @ ''/'' @ default_prefix pfx @ ''-config.json'') =
                Some (let c = (case config of None \<Rightarrow> as_object model | Some c \<Rightarrow> c) in
                      case to_dict c of
                        Some j \<Rightarrow> json_dumps L j
                      | None \<Rightarrow> (case dict_value c of Some j \<Rightarrow> json_dumps L j | None \<Rightarrow> []))) \<and>
           (\<not> te \<or> force \<longrightarrow>
              store w' (base @ ''/'' @ default_prefix pfx @ ''.tensors'') =
                Some (write_module L (tensors model))) \<and>
           (\<forall>q. q \<noteq> base @ ''/'' @ default_prefix pfx @ ''-config.json'' \<and>
                q \<noteq> base @ ''/'' @ default_prefix pfx @ ''.tensors''
                \<longrightarrow> store w' q = store w q)) \<and>
         load_model R v base mc None pfx dt =
           (case init_kwargs mc j of Inl e \<Rightarrow> Inl e | Inr m \<Rightarrow> load_into_module R td m) \<and>
         load_model R v base mc (Some cc) pfx dt =
           (case (case from_config mc of Some config_loader \<Rightarrow> config_loader
                  | None \<Rightarrow> init_config mc) (c\<lparr>gradient_checkpointing := Some True\<rparr>) of
              Inl e \<Rightarrow> Inl e
            | Inr m \<Rightarrow> load_into_module R td m) \<and>
         load_model R u base mc cc' pfx dt = Inl e \<and>
         (store w1 (base @ ''/'' @ default_prefix pfx @ ''.tensors'') =
            store w2 (base @ ''/'' @ default_prefix pfx @ ''.tensors'') \<and>
          fault w1 (base @ ''/'' @ default_prefix pfx @ ''.tensors'') =
            fault w2 (base @ ''/'' @ default_prefix pfx @ ''.tensors'') \<and>
          store w1 (base @ ''/'' @ default_prefix pfx @ ''-config.json'') =
            store w2 (base @ ''/'' @ default_prefix pfx @ ''-config.json'') \<and>
          fault w1 (base @ ''/'' @ default_prefix pfx @ ''-config.json'') =
            fault w2 (base @ ''/'' @ default_prefix pfx @ ''-config.json'') \<and>
          is_local w1 (base @ ''/'' @ default_prefix pfx @ ''-config.json'') =
            is_local w2 (base @ ''/'' @ default_prefix pfx @ ''-config.json'')
          \<longrightarrow> load_model R w1 base mc cc' pfx dt = load_model R w2 base mc cc' pfx dt)"
proof -
  have d: "default_prefix None = ''model''" "default_prefix (Some x) = x"
    by (simp_all add: default_prefix_def)
  have s: "returns (serialize_model L w model config base pfx force) (\<lambda>w'.
           written w' = written w @ (if \<not> ce \<or> force then [save_config_path base pfx] else []) @
                         (if \<not> te \<or> force then [save_tensors_path base pfx] else []) \<and>
           (\<not> ce \<or> force \<longrightarrow>
              store w' (save_config_path base pfx) =
                Some (let c = (case config of None \<Rightarrow> as_object model | Some c \<Rightarrow> c) in
                      case to_dict c of
                        Some j \<Rightarrow> json_dumps L j
                      | None \<Rightarrow> (case dict_value c of Some j \<Rightarrow> json_dumps L j | None \<Rightarrow> []))) \<and>
           (\<not> te \<or> force \<longrightarrow>
              store w' (save_tensors_path base pfx) = Some (write_module L (tensors model))) \<and>
           (\<forall>q. q \<noteq> save_config_path base pfx \<and> q \<noteq> save_tensors_path base pfx
                \<longrightarrow> store w' q = store w q))"
    using assms(1,2) unfolding save_paths [symmetric] by (rule serialize_model_writes)
  have l1: "load_model R v base mc None pfx dt =
           (case init_kwargs mc j of Inl e \<Rightarrow> Inl e | Inr m \<Rightarrow> load_into_module R td m)"
    using assms(3-6) unfolding load_paths [symmetric] by (rule load_model_flat)
  have l2: "load_model R v base mc (Some cc) pfx dt =
           (case (case from_config mc of Some config_loader \<Rightarrow> config_loader
                  | None \<Rightarrow> init_config mc) (c\<lparr>gradient_checkpointing := Some True\<rparr>) of
              Inl e \<Rightarrow> Inl e
            | Inr m \<Rightarrow> load_into_module R td m)"
    using assms(3-5,7) unfolding load_paths [symmetric] by (rule load_model_structured)
  have l3: "load_model R u base mc cc' pfx dt = Inl e"
    using assms(8) unfolding load_paths [symmetric] by (rule load_model_opens_tensors_first)
  have l4: "store w1 (load_tensors_uri base pfx) = store w2 (load_tensors_uri base pfx) \<and>
          fault w1 (load_tensors_uri base pfx) = fault w2 (load_tensors_uri base pfx) \<and>
          store w1 (load_config_uri base pfx) = store w2 (load_config_uri base pfx) \<and>
          fault w1 (load_config_uri base pfx) = fault w2 (load_config_uri base pfx) \<and>
          is_local w1 (load_config_uri base pfx) = is_local w2 (load_config_uri base pfx)
          \<longrightarrow> load_model R w1 base mc cc' pfx dt = load_model R w2 base mc cc' pfx dt"
    using load_model_frame by blast
  show ?thesis
    using d s l1 l2 l3 l4 unfolding save_paths load_paths by blast
qed



lemma unet_dir_saved:
  "serialize_model plain_writer unet_dir bare_module (Some dict_config) ''out'' (Some ''unet'') True =
   Inr (unet_dir\<lparr>store := [''out/unet-config.json'' \<mapsto> ''{ }'', ''out/unet.tensors'' \<mapsto> ''new''],
                 written := [''out/unet-config.json'', ''out/unet.tensors'']\<rparr>)"
  by (simp add: serialize_model_def check_file_exists_def os_path_exists_def
      save_config_path_def save_tensors_path_def dir_prefix_def
      default_prefix_def write_config_def write_tensors_def open_stream_wb_def
      stream_write_def unet_dir_def plain_writer_def bare_module_def dict_config_def Let_def)

lemma unet_dir_facts:
  "check_file_exists unet_dir ''out/unet-config.json'' = Inr True"
  "check_file_exists unet_dir ''out/unet.tensors'' = Inr True"
  "open_stream_rb unet_dir ''out/unet.tensors'' = Inr ''old''"
  "tensor_deserializer plain_reader ''old'' None = Inr ''old''"
  "open_stream_rb unet_dir ''out/unet-config.json'' = Inr ''{}''"
  "json_loads plain_reader ''{}'' = Inr ''{}''"
  "from_pretrained_dir json_class ''{}'' =
     Inr \<lparr>gradient_checkpointing = Some False, settings = ''{}''\<rparr>"
  "fault fresh_dir ''out/unet.tensors'' = Some FileNotFoundError"
  by (simp_all add: check_file_exists_def os_path_exists_def open_stream_rb_def unet_dir_def
      fresh_dir_def plain_reader_def json_class_def)

lemma complete_local_facts:
  "check_file_exists complete_local ''out/model-config.json'' = Inr True"
  "check_file_exists complete_local ''out/model.tensors'' = Inr True"
  "open_stream_rb complete_local ''out/model.tensors'' = Inr ''old''"
  "tensor_deserializer plain_reader ''old'' None = Inr ''old''"
  "open_stream_rb complete_local ''out/model-config.json'' = Inr ''{}''"
  "json_loads plain_reader ''{}'' = Inr ''{}''"
  "from_pretrained_dir json_class ''{}'' =
     Inr \<lparr>gradient_checkpointing = Some False, settings = ''{}''\<rparr>"
  "fault unet_dir ''out/model.tensors'' = Some FileNotFoundError"
  by (simp_all add: check_file_exists_def os_path_exists_def open_stream_rb_def unet_dir_def
      complete_local_def plain_reader_def json_class_def)

theorem artifacts_addressed_witness:
  "check_file_exists unet_dir ''out/unet-config.json'' = Inr True \<and>
   check_file_exists unet_dir ''out/unet.tensors'' = Inr True \<and>
   open_stream_rb unet_dir ''out/unet.tensors'' = Inr ''old'' \<and>
   tensor_deserializer plain_reader ''old'' None = Inr ''old'' \<and>
   open_stream_rb unet_dir ''out/unet-config.json'' = Inr ''{}'' \<and>
   json_loads plain_reader ''{}'' = Inr ''{}'' \<and>
   from_pretrained_dir json_class ''{}'' =
     Inr \<lparr>gradient_checkpointing = Some False, settings = ''{}''\<rparr> \<and>
   fault fresh_dir ''out/unet.tensors'' = Some FileNotFoundError \<and>
   serialize_model plain_writer unet_dir bare_module (Some dict_config) ''out'' (Some ''unet'') True =
     Inr (unet_dir\<lparr>store := [''out/unet-config.json'' \<mapsto> ''{ }'', ''out/unet.tensors'' \<mapsto> ''new''],
                   written := [''out/unet-config.json'', ''out/unet.tensors'']\<rparr>) \<and>
   load_model plain_reader unet_dir ''out'' plain_model_class None (Some ''unet'') None
     = Inr ''old'' \<and>
   load_model plain_reader unet_dir ''out'' plain_model_class (Some json_class) (Some ''unet'') None
     = Inr ''old'' \<and>
   load_model plain_reader fresh_dir ''out'' plain_model_class None (Some ''unet'') None
     = Inl FileNotFoundError \<and>
   fault unet_dir ''out/model.tensors'' = Some FileNotFoundError \<and>
   load_model plain_reader unet_dir ''out'' plain_model_class None None None
     = Inl FileNotFoundError \<and>
   load_model plain_reader complete_local ''out'' plain_model_class None None None = Inr ''old''"
proof -
  have u: "''out'' @ ''/'' @ default_prefix (Some ''unet'') @ ''-config.json'' = ''out/unet-config.json''"
    "''out'' @ ''/'' @ default_prefix (Some ''unet'') @ ''.tensors'' = ''out/unet.tensors''"
    "''out'' @ ''/'' @ default_prefix None @ ''-config.json'' = ''out/model-config.json''"
    "''out'' @ ''/'' @ default_prefix None @ ''.tensors'' = ''out/model.tensors''"
    by (simp_all add: default_prefix_def)
  note t1 = artifacts_addressed [where w = unet_dir and v = unet_dir and u = fresh_dir
      and base = "''out''" and pfx = "Some ''unet''" and ce = True and te = True and force = True
      and L = plain_writer and model = bare_module and config = "Some dict_config"
      and R = plain_reader and ts = "''old''" and dt = None and td = "''old''"
      and bs = "''{}''" and j = "''{}''" and cc = json_class
      and c = "\<lparr>gradient_checkpointing = Some False, settings = ''{}''\<rparr>"
      and e = FileNotFoundError and mc = plain_model_class and cc' = None and x = "''unet''"
      and ?w1.0 = unet_dir and ?w2.0 = unet_dir, unfolded u, OF unet_dir_facts]
  note t2 = artifacts_addressed [where w = complete_local and v = complete_local and u = unet_dir
      and base = "''out''" and pfx = None and ce = True and te = True and force = True
      and L = plain_writer and model = bare_module and config = "Some dict_config"
      and R = plain_reader and ts = "''old''" and dt = None and td = "''old''"
      and bs = "''{}''" and j = "''{}''" and cc = json_class
      and c = "\<lparr>gradient_checkpointing = Some False, settings = ''{}''\<rparr>"
      and e = FileNotFoundError and mc = plain_model_class and cc' = None and x = "''unet''"
      and ?w1.0 = unet_dir and ?w2.0 = unet_dir, unfolded u, OF complete_local_facts]
  have a: "load_model plain_reader unet_dir ''out'' plain_model_class None (Some ''unet'') None
     = Inr ''old''"
    using t1 [THEN conjunct2, THEN conjunct2, THEN conjunct2, THEN conjunct1]
    by (simp add: plain_model_class_def plain_reader_def)
  have b: "load_model plain_reader unet_dir ''out'' plain_model_class (Some json_class)
     (Some ''unet'') None = Inr ''old''"
    using t1 [THEN conjunct2, THEN conjunct2, THEN conjunct2, THEN conjunct2, THEN conjunct1]
    by (simp add: plain_model_class_def plain_reader_def)
  have c: "load_model plain_reader fresh_dir ''out'' plain_model_class None (Some ''unet'') None
     = Inl FileNotFoundError"
    by (rule t1 [THEN conjunct2, THEN conjunct2, THEN conjunct2, THEN conjunct2, THEN conjunct2,
          THEN conjunct1])
  have d: "load_model plain_reader unet_dir ''out'' plain_model_class None None None
     = Inl FileNotFoundError"
    by (rule t2 [THEN conjunct2, THEN conjunct2, THEN conjunct2, THEN conjunct2, THEN conjunct2,
          THEN conjunct1])
  have e: "load_model plain_reader complete_local ''out'' plain_model_class None None None
     = Inr ''old''"
    using t2 [THEN conjunct2, THEN conjunct2, THEN conjunct2, THEN conjunct1]
    by (simp add: plain_model_class_def plain_reader_def)
  show ?thesis
    using unet_dir_facts complete_local_facts(8) unet_dir_saved a b c d e
    by blast
qed

text \<open>
  C9, as the claim states it, fails: \<open>serialize_model\<close> and \<open>load_model\<close> put the base
  into the names as it is given, so that a base with a trailing slash gives names with
  two slashes, which differ from those of the base without it; an object store saved to
  under the one base holds nothing under the names of the other. \<^verbatim>\<open>hf_main\<close> takes
  one slash off, so that of two trailing slashes one remains.
\<close>

theorem trailing_separator_kept:
  "save_config_path ''s3://bucket/out/'' None = ''s3://bucket/out//model-config.json'' \<and>
   save_tensors_path ''s3://bucket/out/'' None = ''s3://bucket/out//model.tensors'' \<and>
   load_config_uri ''s3://bucket/out/'' None = ''s3://bucket/out//model-config.json'' \<and>
   load_tensors_uri ''s3://bucket/out/'' None = ''s3://bucket/out//model.tensors'' \<and>
   save_tensors_path ''s3://bucket/out/'' None \<noteq> save_tensors_path ''s3://bucket/out'' None \<and>
   load_tensors_uri ''s3://bucket/out/'' None \<noteq> load_tensors_uri ''s3://bucket/out'' None \<and>
   returns (serialize_model plain_writer empty_remote bare_module (Some dict_config)
              ''s3://bucket/out/'' None False)
     (\<lambda>w'. store w' ''s3://bucket/out/model.tensors'' = None \<and>
            store w' ''s3://bucket/out//model.tensors'' = Some ''new'') \<and>
   hf_output_prefix ''s3://bucket/out//'' = Inr ''s3://bucket/out/''"
  by (simp add: serialize_model_def check_file_exists_def os_path_exists_def open_stream_rb_def
      stream_read_def save_config_path_def save_tensors_path_def dir_prefix_def
      default_prefix_def load_config_uri_def load_tensors_uri_def hf_output_prefix_def
      write_config_def write_tensors_def open_stream_wb_def stream_write_def
      empty_remote_def plain_writer_def bare_module_def dict_config_def Let_def)

text \<open>
  C9, amended. \<open>serialize_model\<close> and \<open>load_model\<close> build the names from the base as it
  is given. \<^verbatim>\<open>hf_main\<close> removes one trailing slash from a non-empty output prefix
  before it calls them: for a non-empty base that does not end in a slash, the base and
  the base followed by one slash give the same output prefix, hence the same names.
\<close>

theorem hf_main_strips_one_separator:
  assumes "b \<noteq> []" and "last b \<noteq> CHR ''/''"
  shows "hf_output_prefix (b @ ''/'') = Inr b \<and> hf_output_prefix b = Inr b \<and>
         save_config_path base pfx = base @ ''/'' @ default_prefix pfx @ ''-config.json'' \<and>
         save_tensors_path base pfx = base @ ''/'' @ default_prefix pfx @ ''.tensors'' \<and>
         load_config_uri base pfx = base @ ''/'' @ default_prefix pfx @ ''-config.json'' \<and>
         load_tensors_uri base pfx = base @ ''/'' @ default_prefix pfx @ ''.tensors''"
  using assms
  by (simp add: hf_output_prefix_def save_config_path_def save_tensors_path_def dir_prefix_def
      load_config_uri_def load_tensors_uri_def)

theorem hf_main_strips_one_separator_witness:
  "''out'' \<noteq> [] \<and> last ''out'' \<noteq> CHR ''/'' \<and>
   hf_output_prefix ''out/'' = Inr ''out'' \<and> hf_output_prefix ''out'' = Inr ''out'' \<and>
   save_tensors_path ''out'' None = ''out/model.tensors'' \<and>
   load_tensors_uri ''out'' None = ''out/model.tensors''"
  using hf_main_strips_one_separator [where b = "''out''" and base = "''out''" and pfx = None]
  by (simp add: default_prefix_def)

section \<open>Properties of loading the configuration\<close>

text \<open>
  C7, as the claim states it, fails: after a \<^verbatim>\<open>ValueError\<close> of the first step with a
  configuration class, the second step is not a parse of the artifact as flat JSON but
  \<^verbatim>\<open>config_class.from_pretrained(config_uri)\<close>. Here the artifact in the object store
  parses as JSON, the class rejects the copy with a \<^verbatim>\<open>ValueError\<close> and cannot load
  the location, and \<open>load_model\<close> surfaces the \<^verbatim>\<open>OSError\<close> of the class.
\<close>

theorem fallback_is_not_flat_json:
  "open_stream_rb complete_remote ''s3://bucket/out/model-config.json'' = Inr ''{}'' \<and>
   json_loads plain_reader ''{}'' = Inr ''{}'' \<and>
   from_pretrained_dir rejecting_class ''{}'' = Inl ValueError \<and>
   load_config_structured complete_remote rejecting_class ''s3://bucket/out/model-config.json''
     = Inl OSError \<and>
   load_model plain_reader complete_remote ''s3://bucket/out'' plain_model_class
     (Some rejecting_class) None None = Inl OSError"
  by (simp add: load_model_def build_model_def load_config_structured_def structured_first_def
      open_stream_rb_def load_tensors_uri_def load_config_uri_def default_prefix_def
      complete_remote_def plain_reader_def rejecting_class_def)

text \<open>
  C7, amended. The configuration is loaded in two steps in a fixed order, and the
  second step is taken once, when the first raises a \<^verbatim>\<open>ValueError\<close> (which the parse
  errors \<^verbatim>\<open>JSONDecodeError\<close> and \<^verbatim>\<open>UnicodeDecodeError\<close> are). With a
  configuration class the first step lets the class load a copy of the artifact's
  stream, and the second step is the class loading the artifact's location itself.
  Without one the first step parses the artifact's stream as JSON, and the second step
  parses the local file of the same name. An error of another class in the first step,
  an error of the adapter when it opens the stream that is not a \<^verbatim>\<open>ValueError\<close>, and
  any error of the second step are the error of \<open>load_model\<close>.
\<close>

theorem config_load_fallback:
  assumes "open_stream_rb w (load_config_uri b p) = Inr bs"
    and "open_stream_rb w (load_tensors_uri b p) = Inr ts"
    and "tensor_deserializer R ts dt = Inr td"
    and "open_stream_rb v u = Inl x"
  shows "load_config_structured w cc (load_config_uri b p) =
           (case from_pretrained_dir cc bs of
              Inr c \<Rightarrow> Inr (c\<lparr>gradient_checkpointing := Some True\<rparr>)
            | Inl e \<Rightarrow>
                if is_ValueError e then from_pretrained_at cc (load_config_uri b p) else Inl e) \<and>
         load_config_flat R w (load_config_uri b p) =
           (case json_loads R bs of
              Inr j \<Rightarrow> Inr j
            | Inl e \<Rightarrow>
                if is_ValueError e
                then (case py_open_r w (load_config_uri b p) of
                        Inl e' \<Rightarrow> Inl e'
                      | Inr bs' \<Rightarrow> json_loads R bs')
                else Inl e) \<and>
         load_config_structured v cc u =
           (if is_ValueError x then from_pretrained_at cc u else Inl x) \<and>
         load_config_flat R v u =
           (if is_ValueError x
            then (case py_open_r v u of Inl e' \<Rightarrow> Inl e' | Inr bs' \<Rightarrow> json_loads R bs')
            else Inl x) \<and>
         (load_config_structured w cc (load_config_uri b p) = Inl e \<longrightarrow>
            load_model R w b mc (Some cc) p dt = Inl e) \<and>
         (load_config_flat R w (load_config_uri b p) = Inl e \<longrightarrow>
            load_model R w b mc None p dt = Inl e)"
  using assms
  by (simp add: load_model_def build_model_def load_config_structured_def structured_first_def
      load_config_flat_def flat_first_def flat_second_def split: sum.splits)

lemma config_uri_out: "load_config_uri ''out'' None = ''out/model-config.json''"
  by (simp add: load_config_uri_def default_prefix_def)

lemma truncated_dir_facts:
  "open_stream_rb truncated_dir (load_config_uri ''out'' None) = Inr []"
  "open_stream_rb truncated_dir (load_tensors_uri ''out'' None) = Inr ''old''"
  "tensor_deserializer plain_reader ''old'' None = Inr ''old''"
  "open_stream_rb fresh_dir ''out/model-config.json'' = Inl FileNotFoundError"
  by (simp_all add: open_stream_rb_def load_config_uri_def load_tensors_uri_def
      default_prefix_def truncated_dir_def fresh_dir_def plain_reader_def)

lemma complete_local_streams:
  "open_stream_rb complete_local (load_config_uri ''out'' None) = Inr ''{}''"
  "open_stream_rb complete_local (load_tensors_uri ''out'' None) = Inr ''old''"
  "tensor_deserializer plain_reader ''old'' None = Inr ''old''"
  "open_stream_rb fresh_dir ''out/model-config.json'' = Inl FileNotFoundError"
  by (simp_all add: open_stream_rb_def load_config_uri_def load_tensors_uri_def
      default_prefix_def complete_local_def fresh_dir_def plain_reader_def)

theorem config_load_fallback_witness:
  "open_stream_rb complete_local (load_config_uri ''out'' None) = Inr ''{}'' \<and>
   open_stream_rb complete_local (load_tensors_uri ''out'' None) = Inr ''old'' \<and>
   open_stream_rb truncated_dir (load_config_uri ''out'' None) = Inr [] \<and>
   open_stream_rb truncated_dir (load_tensors_uri ''out'' None) = Inr ''old'' \<and>
   tensor_deserializer plain_reader ''old'' None = Inr ''old'' \<and>
   open_stream_rb fresh_dir ''out/model-config.json'' = Inl FileNotFoundError \<and>
   load_config_structured complete_local json_class ''out/model-config.json'' =
     Inr \<lparr>gradient_checkpointing = Some True, settings = ''{}''\<rparr> \<and>
   load_config_flat plain_reader complete_local ''out/model-config.json'' = Inr ''{}'' \<and>
   load_config_structured truncated_dir json_class ''out/model-config.json'' =
     Inr \<lparr>gradient_checkpointing = Some False, settings = ''out/model-config.json''\<rparr> \<and>
   load_config_flat plain_reader truncated_dir ''out/model-config.json'' = Inl JSONDecodeError \<and>
   load_model plain_reader truncated_dir ''out'' plain_model_class None None None
     = Inl JSONDecodeError \<and>
   load_config_structured truncated_dir rejecting_class ''out/model-config.json'' = Inl OSError \<and>
   load_model plain_reader truncated_dir ''out'' plain_model_class (Some rejecting_class) None None
     = Inl OSError \<and>
   load_config_structured fresh_dir json_class ''out/model-config.json''
     = Inl FileNotFoundError \<and>
   load_config_flat plain_reader fresh_dir ''out/model-config.json'' = Inl FileNotFoundError"
proof -
  note t1 = config_load_fallback [OF complete_local_streams, where cc = json_class
      and mc = plain_model_class and e = OSError, unfolded config_uri_out]
  note t2 = config_load_fallback [OF truncated_dir_facts, where cc = json_class
      and mc = plain_model_class and e = JSONDecodeError, unfolded config_uri_out]
  note t3 = config_load_fallback [OF truncated_dir_facts, where cc = rejecting_class
      and mc = plain_model_class and e = OSError, unfolded config_uri_out]
  have a: "load_config_structured complete_local json_class ''out/model-config.json'' =
     Inr \<lparr>gradient_checkpointing = Some True, settings = ''{}''\<rparr>"
    using t1 [THEN conjunct1] by (simp add: json_class_def)
  have b: "load_config_flat plain_reader complete_local ''out/model-config.json'' = Inr ''{}''"
    using t1 [THEN conjunct2, THEN conjunct1] by (simp add: plain_reader_def)
  have c: "load_config_structured truncated_dir json_class ''out/model-config.json'' =
     Inr \<lparr>gradient_checkpointing = Some False, settings = ''out/model-config.json''\<rparr>"
    using t2 [THEN conjunct1] by (simp add: json_class_def)
  have d: "load_config_flat plain_reader truncated_dir ''out/model-config.json''
     = Inl JSONDecodeError"
    using t2 [THEN conjunct2, THEN conjunct1]
    by (simp add: plain_reader_def py_open_r_def truncated_dir_def)
  have e: "load_model plain_reader truncated_dir ''out'' plain_model_class None None None
     = Inl JSONDecodeError"
    using t2 [THEN conjunct2, THEN conjunct2, THEN conjunct2, THEN conjunct2, THEN conjunct2] d
    by blast
  have f: "load_config_structured truncated_dir rejecting_class ''out/model-config.json''
     = Inl OSError"
    using t3 [THEN conjunct1] by (simp add: rejecting_class_def)
  have g: "load_model plain_reader truncated_dir ''out'' plain_model_class (Some rejecting_class)
     None None = Inl OSError"
    using t3 [THEN conjunct2, THEN conjunct2, THEN conjunct2, THEN conjunct2, THEN conjunct1] f
    by blast
  have h: "load_config_structured fresh_dir json_class ''out/model-config.json''
     = Inl FileNotFoundError"
    using t1 [THEN conjunct2, THEN conjunct2, THEN conjunct1] by simp
  have i: "load_config_flat plain_reader fresh_dir ''out/model-config.json''
     = Inl FileNotFoundError"
    using t1 [THEN conjunct2, THEN conjunct2, THEN conjunct2, THEN conjunct1] by simp
  show ?thesis
    using complete_local_streams truncated_dir_facts a b c d e f g h i by blast
qed

text \<open>
  C10, as the claim states it, fails: for a class whose configurations already come
  with \<^verbatim>\<open>gradient_checkpointing\<close> true, the first path and the fallback path give
  configurations that agree in this attribute.
\<close>

theorem gradient_checkpointing_same:
  "load_config_structured complete_local checkpointing_class ''out/model-config.json'' =
     Inr \<lparr>gradient_checkpointing = Some True, settings = ''{}''\<rparr> \<and>
   structured_first truncated_dir checkpointing_class ''out/model-config.json'' = Inl ValueError \<and>
   load_config_structured truncated_dir checkpointing_class ''out/model-config.json'' =
     Inr \<lparr>gradient_checkpointing = Some True, settings = ''out/model-config.json''\<rparr> \<and>
   gradient_checkpointing \<lparr>gradient_checkpointing = Some True, settings = ''{}''\<rparr> =
     gradient_checkpointing
       \<lparr>gradient_checkpointing = Some True, settings = ''out/model-config.json''\<rparr>"
  by (simp add: load_config_structured_def structured_first_def open_stream_rb_def
      complete_local_def truncated_dir_def checkpointing_class_def)

text \<open>
  C10, amended. With a configuration class: when the first step returns, the
  configuration handed to the model's constructor has \<^verbatim>\<open>gradient_checkpointing\<close> set
  to true; when the first step raises a \<^verbatim>\<open>ValueError\<close> and the second step returns,
  the constructor gets the configuration as the class returned it, the attribute
  untouched. The configurations of the two paths differ in this attribute exactly when
  the class did not itself return it as true on the fallback path.
\<close>

theorem gradient_checkpointing_set_or_kept:
  assumes "open_stream_rb w1 u = Inr bs" and "from_pretrained_dir cc bs = Inr c1"
    and "structured_first w2 cc u = Inl e" and "is_ValueError e"
    and "from_pretrained_at cc u = Inr c2"
  shows "load_config_structured w1 cc u = Inr (c1\<lparr>gradient_checkpointing := Some True\<rparr>) \<and>
         build_model R w1 mc (Some cc) u =
           (case from_config mc of Some config_loader \<Rightarrow> config_loader | None \<Rightarrow> init_config mc)
             (c1\<lparr>gradient_checkpointing := Some True\<rparr>) \<and>
         load_config_structured w2 cc u = Inr c2 \<and>
         build_model R w2 mc (Some cc) u =
           (case from_config mc of Some config_loader \<Rightarrow> config_loader | None \<Rightarrow> init_config mc)
             c2 \<and>
         returns (load_config_structured w1 cc u) (\<lambda>r1.
           returns (load_config_structured w2 cc u) (\<lambda>r2.
             (gradient_checkpointing r1 \<noteq> gradient_checkpointing r2) =
             (gradient_checkpointing c2 \<noteq> Some True)))"
  using assms
  by (auto simp add: load_config_structured_def structured_first_def build_model_def
      split: option.splits)

lemma json_class_first:
  "open_stream_rb complete_local ''out/model-config.json'' = Inr ''{}''"
  "from_pretrained_dir json_class ''{}'' =
     Inr \<lparr>gradient_checkpointing = Some False, settings = ''{}''\<rparr>"
  by (simp_all add: open_stream_rb_def complete_local_def json_class_def)

lemma json_class_fallback:
  "structured_first truncated_dir json_class ''out/model-config.json'' = Inl ValueError"
  "is_ValueError ValueError"
  "from_pretrained_at json_class ''out/model-config.json'' =
     Inr \<lparr>gradient_checkpointing = Some False, settings = ''out/model-config.json''\<rparr>"
  by (simp_all add: structured_first_def open_stream_rb_def truncated_dir_def json_class_def)

theorem gradient_checkpointing_set_or_kept_witness:
  "open_stream_rb complete_local ''out/model-config.json'' = Inr ''{}'' \<and>
   from_pretrained_dir json_class ''{}'' =
     Inr \<lparr>gradient_checkpointing = Some False, settings = ''{}''\<rparr> \<and>
   structured_first truncated_dir json_class ''out/model-config.json'' = Inl ValueError \<and>
   is_ValueError ValueError \<and>
   from_pretrained_at json_class ''out/model-config.json'' =
     Inr \<lparr>gradient_checkpointing = Some False, settings = ''out/model-config.json''\<rparr> \<and>
   load_config_structured complete_local json_class ''out/model-config.json'' =
     Inr \<lparr>gradient_checkpointing = Some True, settings = ''{}''\<rparr> \<and>
   load_config_structured truncated_dir json_class ''out/model-config.json'' =
     Inr \<lparr>gradient_checkpointing = Some False, settings = ''out/model-config.json''\<rparr> \<and>
   build_model plain_reader complete_local plain_model_class (Some json_class)
     ''out/model-config.json'' = Inr ''{}'' \<and>
   build_model plain_reader truncated_dir plain_model_class (Some json_class)
     ''out/model-config.json'' = Inr ''out/model-config.json''"
  using json_class_first json_class_fallback
    gradient_checkpointing_set_or_kept [OF json_class_first json_class_fallback,
      where R = plain_reader and mc = plain_model_class]
  by (simp add: plain_model_class_def)

section \<open>Reading back what the tensor store wrote\<close>

lemma length_le_bytes: "length (le_bytes k n) = k"
  by (induction k arbitrary: n) auto

lemma le_nat_le_bytes: "n < 256 ^ k \<Longrightarrow> le_nat (le_bytes k n) = n"
proof (induction k arbitrary: n)
  case 0
  then show ?case by simp
next
  case (Suc k)
  have "n div 256 < 256 ^ k"
    using Suc.prems by (simp add: less_mult_imp_div_less mult.commute)
  then have "le_nat (le_bytes k (n div 256)) = n div 256"
    by (rule Suc.IH)
  then show ?case by simp
qed

lemma read_bytes_append: "length xs = n \<Longrightarrow> read_bytes n (xs @ rest) = Inr (xs, rest)"
  by (simp add: read_bytes_def)

lemma read_bytes_one: "read_bytes (Suc 0) (c # rest) = Inr ([c], rest)"
  by (simp add: read_bytes_def)

lemma read_u64_append:
  assumes "n < 2 ^ 64"
  shows "read_u64 (u64 n @ rest) = Inr (n, rest)"
proof -
  from assms have "n < 256 ^ 8" by simp
  then have "le_nat (le_bytes 8 n) = n" by (rule le_nat_le_bytes)
  then show ?thesis
    by (simp add: read_u64_def u64_def read_bytes_append length_le_bytes)
qed

lemma read_dims_append:
  "list_all (\<lambda>d. d < 2 ^ 64) ds \<Longrightarrow>
     read_dims (length ds) (concat (map u64 ds) @ rest) = Inr (ds, rest)"
  by (induction ds) (simp_all add: read_u64_append)

lemma tag_dtype_tag: "tag_dtype (dtype_tag dt) = Some dt"
  by (cases dt) (simp_all add: tag_dtype_def)

lemma dtype_tag_small: "dtype_tag dt < 256"
  by (cases dt) simp_all

lemma read_record_append:
  assumes "fits r"
  shows "read_record (encode_tensor r @ rest) = Inr (r, rest)"
proof -
  obtain name t where r: "r = (name, t)" by (cases r)
  have tag: "dtype_tag (t_dtype t) mod 256 = dtype_tag (t_dtype t)"
    using dtype_tag_small [of "t_dtype t"] by simp
  show ?thesis
    using assms
    by (simp add: r fits_def encode_tensor_def read_record_def read_u64_append
        read_bytes_append read_bytes_one read_dims_append tag tag_dtype_tag)
qed

lemma encode_tensor_nonempty: "encode_tensor r \<noteq> []"
  by (cases r) (simp add: encode_tensor_def u64_def)

lemma tensor_store_write_nonempty: "tensor_store_write (r # T) \<noteq> []"
  by (simp add: tensor_store_write_def encode_tensor_nonempty)

text \<open>The directory read from a written artifact is the collection that was written.\<close>

lemma read_directory_write:
  "list_all fits T \<Longrightarrow> read_directory (tensor_store_write T) = Inr T"
proof (induction T)
  case Nil
  then show ?case by (simp add: tensor_store_write_def read_directory.simps)
next
  case (Cons r T)
  have "read_directory (encode_tensor r @ tensor_store_write T) = Inr (r # T)"
    using Cons encode_tensor_nonempty [of r]
    by (subst read_directory.simps) (simp add: read_record_append)
  then show ?case by (simp add: tensor_store_write_def)
qed

text \<open>
  Binding a directory with distinct names into a target that declares the same names
  in the same order gives the directory's tensors, cast if a kind was requested.
\<close>

lemma bind_all_slots:
  assumes "distinct (map fst T)" and "map fst sk = map fst T"
  shows "map (bind_slot cast \<lparr>directory = T, requested = dt\<rparr>) sk =
           map (\<lambda>(n, t). (n, (case dt of None \<Rightarrow> t | Some k \<Rightarrow> cast k t))) T"
proof -
  have len: "length sk = length T"
    using assms(2) by (metis length_map)
  have "\<forall>i < length T. bind_slot cast \<lparr>directory = T, requested = dt\<rparr> (sk ! i) =
          (\<lambda>(n, t). (n, (case dt of None \<Rightarrow> t | Some k \<Rightarrow> cast k t))) (T ! i)"
  proof (intro allI impI)
    fix i assume i: "i < length T"
    obtain n t where Ti: "T ! i = (n, t)" by (cases "T ! i")
    have "fst (sk ! i) = n"
      using assms(2) i len Ti by (metis fst_conv nth_map)
    then obtain init where ski: "sk ! i = (n, init)" by (cases "sk ! i") auto
    have "(n, t) \<in> set T" using i Ti by (metis nth_mem)
    then have "map_of T n = Some t"
      using assms(1) by simp
    then show "bind_slot cast \<lparr>directory = T, requested = dt\<rparr> (sk ! i) =
          (\<lambda>(n, t). (n, (case dt of None \<Rightarrow> t | Some k \<Rightarrow> cast k t))) (T ! i)"
      by (simp add: bind_slot_def ski Ti)
  qed
  then show ?thesis
    using len by (simp add: list_eq_iff_nth_eq)
qed

lemma fault_write_tensors: "fault (write_tensors L w p t) = fault w"
  by (simp add: write_tensors_def open_stream_wb_def stream_write_def)

lemma old_tensors_fit: "list_all fits old_tensors"
  by (simp add: old_tensors_def fits_def)

lemma new_tensors_ok:
  "distinct (map fst (tensors new_module))" "list_all fits (tensors new_module)"
  by (simp_all add: new_module_def new_tensors_def fits_def)

lemma empty_local_probes:
  "check_file_exists empty_local (save_config_path ''out'' None) = Inr False"
  "check_file_exists empty_local (save_tensors_path ''out'' None) = Inr False"
  "\<not> False \<or> False"
  "fault empty_local (save_tensors_path ''out'' None) = None"
  by (simp_all add: check_file_exists_def os_path_exists_def open_stream_rb_def stream_read_def
      empty_local_def)

lemma new_module_saved:
  "serialize_model (tensor_writer (\<lambda>d. d)) empty_local new_module (Some dict_config)
     ''out'' None False = Inr saved_local"
  by (simp add: serialize_model_def check_file_exists_def os_path_exists_def open_stream_rb_def
      stream_read_def save_config_path_def save_tensors_path_def dir_prefix_def
      default_prefix_def write_config_def write_tensors_def open_stream_wb_def
      stream_write_def empty_local_def saved_local_def tensor_writer_def new_module_def
      dict_config_def Let_def)

lemma saved_local_skeleton:
  "build_model (tensor_reader plain_loads retag) saved_local slot_class None
     (load_config_uri ''out'' None) =
   Inr [(''w1'', \<lparr>t_dtype = Float32, t_shape = [], t_payload = []\<rparr>)]"
  "map fst [(''w1'', \<lparr>t_dtype = Float32, t_shape = [], t_payload = []\<rparr>)] =
     map fst (tensors new_module)"
  by (simp_all add: build_model_def load_config_flat_def flat_first_def open_stream_rb_def
      load_config_uri_def default_prefix_def saved_local_def tensor_reader_def plain_loads_def
      slot_class_def new_module_def new_tensors_def)

text \<open>
  C1, as the claim states it, fails: in a directory that already holds a tensor
  artifact, \<open>serialize_model\<close> with \<open>force = False\<close> writes nothing, and \<open>load_model\<close>
  then returns the tensors that were there before, not those of the module that was
  to be saved.
\<close>

theorem stale_artifact_survives:
  "serialize_model (tensor_writer (\<lambda>d. d)) stale_local new_module (Some dict_config)
     ''out'' None False = Inr stale_local \<and>
   load_model (tensor_reader plain_loads retag) stale_local ''out'' slot_class None None None
     = Inr old_tensors \<and>
   old_tensors \<noteq> tensors new_module"
proof -
  have ne: "tensor_store_write old_tensors \<noteq> []"
    by (simp add: old_tensors_def tensor_store_write_nonempty)
  have s: "serialize_model (tensor_writer (\<lambda>d. d)) stale_local new_module (Some dict_config)
     ''out'' None False = Inr stale_local"
    using ne
    by (simp add: serialize_model_def check_file_exists_def os_path_exists_def
        save_config_path_def save_tensors_path_def dir_prefix_def default_prefix_def
        stale_local_def Let_def)
  have b: "[bind_slot retag \<lparr>directory = old_tensors, requested = None\<rparr>
             (''w1'', \<lparr>t_dtype = Float32, t_shape = [], t_payload = []\<rparr>)] = old_tensors"
    by (simp add: bind_slot_def old_tensors_def)
  have l: "load_model (tensor_reader plain_loads retag) stale_local ''out'' slot_class
             None None None = Inr old_tensors"
    by (simp add: load_model_def load_tensors_uri_def load_config_uri_def default_prefix_def
        open_stream_rb_def stale_local_def tensor_reader_def tensor_deserializer_open_def
        read_directory_write [OF old_tensors_fit] build_model_def load_config_flat_def
        flat_first_def plain_loads_def slot_class_def load_into_def b)
  show ?thesis
    using s l by (simp add: old_tensors_def new_module_def new_tensors_def)
qed

text \<open>
  C1, amended. Let the tensors of the module have distinct names and sizes that fit the
  header fields. If the call of \<open>serialize_model\<close> writes the tensor artifact (its probe
  did not find one, or \<open>force\<close> is set), the adapter can open that artifact, and
  \<open>load_model\<close> builds from the configuration a module that declares the same names,
  then \<open>load_model\<close> on the world the save left returns exactly the saved tensors when
  no kind is requested, and the cast of each of them when a kind is requested.
\<close>

theorem save_load_round_trip:
  assumes "distinct (map fst (tensors model))" and "list_all fits (tensors model)"
    and "check_file_exists w (save_config_path base pfx) = Inr ce"
    and "check_file_exists w (save_tensors_path base pfx) = Inr te"
    and "\<not> te \<or> force"
    and "fault w (save_tensors_path base pfx) = None"
    and "serialize_model (tensor_writer dumps) w model config base pfx force = Inr w'"
    and "build_model (tensor_reader loads cast) w' mc cc (load_config_uri base pfx) = Inr sk"
    and "map fst sk = map fst (tensors model)"
  shows "load_model (tensor_reader loads cast) w' base mc cc pfx None = Inr (tensors model) \<and>
         load_model (tensor_reader loads cast) w' base mc cc pfx (Some dt) =
           Inr (map (\<lambda>(n, t). (n, cast dt t)) (tensors model))"
proof -
  let ?tp = "save_tensors_path base pfx"
  let ?L = "tensor_writer dumps"
  have tp: "load_tensors_uri base pfx = ?tp"
    by (simp add: load_tensors_uri_def save_tensors_path_def dir_prefix_def)
  obtain w1 where w': "w' = write_tensors ?L w1 ?tp (tensors model)" and f1: "fault w1 = fault w"
    using assms(5,7)
    by (auto simp add: serialize_model_probed [OF assms(3,4)] Let_def write_config_def
        open_stream_wb_def stream_write_def split: option.splits)
  have "store w' ?tp = Some (tensor_store_write (tensors model))"
    by (simp add: w' store_write_tensors_same tensor_writer_def)
  moreover have "fault w' ?tp = None"
    by (simp add: w' fault_write_tensors f1 assms(6))
  ultimately have stream: "open_stream_rb w' ?tp = Inr (tensor_store_write (tensors model))"
    by (simp add: open_stream_rb_def)
  have dir: "tensor_deserializer_open (tensor_store_write (tensors model)) k =
               Inr \<lparr>directory = tensors model, requested = k\<rparr>" for k
    by (simp add: tensor_deserializer_open_def read_directory_write [OF assms(2)])
  have "load_model (tensor_reader loads cast) w' base mc cc pfx k =
          Inr (map (\<lambda>(n, t). (n, (case k of None \<Rightarrow> t | Some j \<Rightarrow> cast j t))) (tensors model))"
    for k
    using assms(8)
    by (simp add: load_model_def tp stream tensor_reader_def dir load_into_def
        bind_all_slots [OF assms(1,9)])
  from this [of None] this [of "Some dt"] show ?thesis
    by simp
qed

theorem save_load_round_trip_witness:
  "distinct (map fst (tensors new_module)) \<and> list_all fits (tensors new_module) \<and>
   check_file_exists empty_local (save_config_path ''out'' None) = Inr False \<and>
   check_file_exists empty_local (save_tensors_path ''out'' None) = Inr False \<and>
   fault empty_local (save_tensors_path ''out'' None) = None \<and>
   serialize_model (tensor_writer (\<lambda>d. d)) empty_local new_module (Some dict_config)
     ''out'' None False = Inr saved_local \<and>
   build_model (tensor_reader plain_loads retag) saved_local slot_class None
     (load_config_uri ''out'' None) =
     Inr [(''w1'', \<lparr>t_dtype = Float32, t_shape = [], t_payload = []\<rparr>)] \<and>
   load_model (tensor_reader plain_loads retag) saved_local ''out'' slot_class None None None
     = Inr [(''w1'', \<lparr>t_dtype = Float32, t_shape = [1], t_payload = ''bbbb''\<rparr>)] \<and>
   load_model (tensor_reader plain_loads retag) saved_local ''out'' slot_class None None
     (Some Float16)
     = Inr [(''w1'', \<lparr>t_dtype = Float16, t_shape = [1], t_payload = ''bbbb''\<rparr>)]"
  using new_tensors_ok empty_local_probes new_module_saved saved_local_skeleton
    save_load_round_trip [OF new_tensors_ok empty_local_probes new_module_saved
      saved_local_skeleton, where dt = Float16]
  by (simp add: new_module_def new_tensors_def retag_def)

end
